theory Spec2Isabelle
  imports Complex_Main "HOL-Library.Sublist"
begin

section \<open>JavaScript values\<close>

text \<open>
  The server is JavaScript. A string is its sequence of UTF-16 code units, so that
  \<open>length\<close>, \<open>trim\<close> and the class \<open>\s\<close> mean what they mean in the source;
  the Thai literals of the source are written as their code units.
  A number is a finite value or one of the three special values; \<open>-0\<close> is \<open>0\<close>.
  The two operations of the runtime whose result depends on the rounding to doubles,
  the conversion of a string to a number and the product of two numbers, are not
  computed here: they are functions the environment supplies, and every statement
  below holds whatever they are.
\<close>

type_synonym jsstring = "nat list"

definition js :: "string \<Rightarrow> jsstring" where
  "js s = map of_char s"

datatype jsnum = Finite rat | NaN | PosInf | NegInf

text \<open>
  A value of a JSON body, or \<^verbatim>\<open>undefined\<close> for a field that is not there. An array or
  object is given by the string its conversion to a primitive yields (its \<^verbatim>\<open>toString\<close>),
  which is all the program uses of it.
\<close>

datatype jsval = Undefined | Null | Bool bool | Num jsnum | Str jsstring | Object jsstring

definition isWhiteSpace :: "nat \<Rightarrow> bool" where
  \<comment> \<open>WhiteSpace and LineTerminator of ECMAScript: what \<open>trim\<close> strips and \<open>\s\<close> matches\<close>
  "isWhiteSpace c =
     (c = 9 \<or> c = 10 \<or> c = 11 \<or> c = 12 \<or> c = 13 \<or> c = 32 \<or> c = 160 \<or> c = 5760
      \<or> (8192 \<le> c \<and> c \<le> 8202) \<or> c = 8232 \<or> c = 8233 \<or> c = 8239 \<or> c = 8287
      \<or> c = 12288 \<or> c = 65279)"

definition trim :: "jsstring \<Rightarrow> jsstring" where
  "trim s = rev (dropWhile isWhiteSpace (rev (dropWhile isWhiteSpace s)))"

fun Number :: "(jsstring \<Rightarrow> jsnum) \<Rightarrow> jsval \<Rightarrow> jsnum" where
  \<comment> \<open>\<^verbatim>\<open>Number(v)\<close>, given the runtime's conversion of strings\<close>
  "Number s2n Undefined = NaN"
| "Number s2n Null = Finite 0"
| "Number s2n (Bool b) = Finite (if b then 1 else 0)"
| "Number s2n (Num n) = n"
| "Number s2n (Str s) = s2n s"
| "Number s2n (Object s) = s2n s"

fun Math_round :: "jsnum \<Rightarrow> jsnum" where
  \<comment> \<open>the nearest integer, a tie going up\<close>
  "Math_round (Finite r) = Finite (of_int \<lfloor>r + 1 / 2\<rfloor>)"
| "Math_round NaN = NaN"
| "Math_round PosInf = PosInf"
| "Math_round NegInf = NegInf"

section \<open>Sensor ingest\<close>

text \<open>
  \<^verbatim>\<open>POST /sensor-data\<close>. The request body is the three fields, \<^verbatim>\<open>undefined\<close> for
  one that is not there (all three when there is no body: the JSON middleware leaves
  \<^verbatim>\<open>{}\<close>); the answer is the HTTP status and the new value of the singleton
  \<^verbatim>\<open>lastSensorData\<close>.
  \<^verbatim>\<open>src/backend/src/index.ts\<close> stores \<^verbatim>\<open>Number(light)\<close>, \<^verbatim>\<open>Number(temp)\<close>,
  \<^verbatim>\<open>Number(humidity)\<close>; the server with the rate limiter
  (\<^verbatim>\<open>src/unnamed/part_001\<close>) stores the three values as they came.
\<close>

record sensor_body =
  light :: jsval
  temp :: jsval
  humidity :: jsval

definition sensor_data_ts ::
  "(jsstring \<Rightarrow> jsnum) \<Rightarrow> sensor_body \<Rightarrow> sensor_body option \<Rightarrow> nat \<times> sensor_body option" where
  "sensor_data_ts s2n body lastSensorData0 =
     (if list_all (\<lambda>v. v \<noteq> Undefined) [light body, temp body, humidity body]
      then (200, Some \<lparr>light = Num (Number s2n (light body)),
                        temp = Num (Number s2n (temp body)),
                        humidity = Num (Number s2n (humidity body))\<rparr>)
      else (400, lastSensorData0))"

definition sensor_data_js :: "sensor_body \<Rightarrow> sensor_body option \<Rightarrow> nat \<times> sensor_body option" where
  "sensor_data_js body lastSensorData0 =
     (if light body \<noteq> Undefined \<and> temp body \<noteq> Undefined \<and> humidity body \<noteq> Undefined
      then (200, Some \<lparr>light = light body, temp = temp body, humidity = humidity body\<rparr>)
      else (400, lastSensorData0))"

section \<open>Configuration, environment and state\<close>

text \<open>
  The settings read from the process environment at start-up. \<open>OPENAI_API_KEY\<close> says
  whether the key is set; the three numbers are what \<^verbatim>\<open>Number(process.env.X || default)\<close>
  gave, taken to be finite.
\<close>

record config =
  OPENAI_API_KEY :: bool
  OPENAI_RPM :: rat
  OPENAI_MAX_RETRIES :: rat
  CACHE_TTL_MS :: rat

definition minGapMs :: "config \<Rightarrow> nat" where
  \<comment> \<open>\<^verbatim>\<open>Math.ceil(60000 / Math.max(1, OPENAI_RPM))\<close>\<close>
  "minGapMs cfg = nat \<lceil>60000 / max 1 (OPENAI_RPM cfg)\<rceil>"

text \<open>
  The prompt is a template over the three sensor values and the question; it is kept as
  these four parts. The texts sent to the chat platform are kept as the template they
  instantiate: the notice that no reading exists, the status summary of a reading, the
  notice that the model is being asked, the notice that its answer was empty, and the
  answer (the question and the model's text, which the source passes through
  \<^verbatim>\<open>cleanAIResponse\<close>).
\<close>

datatype prompt = Prompt jsval jsval jsval jsstring

datatype message =
    NoSensorData
  | ShortMsg jsval jsval jsval
  | AskingAI
  | EmptyAIAnswer
  | Answer jsstring jsstring

datatype io_op =
    UserFind jsstring
  | UserCreate jsstring
  | PendingFind jsstring
  | PendingCreate jsstring
  | PendingDeleteOp nat
  | ReplyOp jsstring
  | PushOp jsstring

text \<open>
  What a \<^verbatim>\<open>catch\<close> can receive: an error of the completion SDK with its \<^verbatim>\<open>status\<close> and
  its \<^verbatim>\<open>retry-after-ms\<close> and \<^verbatim>\<open>retry-after\<close> headers, the error
  \<^verbatim>\<open>Responses API not available\<close> that \<^verbatim>\<open>askOpenAI\<close> throws itself, a
  \<^verbatim>\<open>TypeError\<close>, or the failure of a call to the store or to the chat platform.
\<close>

datatype error =
    ApiError "nat option" "jsstring option" "jsstring option"
  | NotAvailable
  | TypeError
  | IoError io_op

fun status :: "error \<Rightarrow> nat option" where
  "status (ApiError s _ _) = s"
| "status _ = None"

datatype 'a api = Unavailable | Throws error | Resolves 'a

record sdk =
  responses :: "jsstring option api"
  chat :: "jsstring option api"

text \<open>
  The world outside the process. \<open>openai n p\<close> is how the SDK behaves at the \<open>n\<close>-th
  invocation of \<^verbatim>\<open>askOpenAI\<close>, on prompt \<open>p\<close>: whether each of its two entry points
  exists, and whether it resolves (with a text or without one) or throws;
  \<open>latency n\<close> is how long that invocation takes. \<open>random800 n\<close> is the value of
  \<^verbatim>\<open>Math.floor(Math.random() * 800)\<close> drawn after it. A timer never fires early:
  \<open>lateness t\<close> is by how much the timer armed at time \<open>t\<close> fires late. \<open>ioFails\<close>
  says which calls to the store and to the chat platform throw. \<open>stringToNumber\<close> and
  \<open>multiply\<close> are the runtime's conversion of a string to a number and its product of
  two numbers.
\<close>

record env =
  openai :: "nat \<Rightarrow> prompt \<Rightarrow> sdk"
  latency :: "nat \<Rightarrow> nat"
  random800 :: "nat \<Rightarrow> nat"
  lateness :: "nat \<Rightarrow> nat"
  ioFails :: "io_op \<Rightarrow> bool"
  stringToNumber :: "jsstring \<Rightarrow> jsnum"
  multiply :: "jsnum \<Rightarrow> jsnum \<Rightarrow> jsnum"

datatype effect =
    Started nat prompt
  | ResponsesCreate prompt
  | ChatCreate prompt
  | ConsoleWarn jsnum nat
  | ConsoleError io_op
  | LineReply jsstring message
  | LinePush jsstring message
  | PendingDelete nat

datatype promise = Fulfilled | Rejected error

record pending =
  pid :: nat
  replyToken :: jsstring
  userId :: jsstring
  messageType :: jsstring
  ptext :: jsstring
  createdAt :: nat

type_synonym cache_key = "jsstring \<times> jsnum \<times> jsnum \<times> jsnum"

text \<open>
  The state of the process and of its store: the clock \<^verbatim>\<open>Date.now()\<close> in
  milliseconds, the module variables \<^verbatim>\<open>chain\<close> (the settled state of the promise
  at the tail of the queue), \<^verbatim>\<open>lastCall\<close>, \<^verbatim>\<open>aiCache\<close> and \<^verbatim>\<open>lastSensorData\<close>,
  the two tables, and two observers: the number of invocations of \<^verbatim>\<open>askOpenAI\<close> so
  far, and the effects in the order they happened.
\<close>

record world =
  now :: nat
  chain :: promise
  lastCall :: nat
  aiCache :: "cache_key \<rightharpoonup> nat \<times> jsstring"
  lastSensorData :: "sensor_body option"
  users :: "jsstring list"
  pendingReplies :: "pending list"
  nextId :: nat
  attempts :: nat
  trace :: "effect list"

definition init :: "nat \<Rightarrow> world" where
  \<comment> \<open>the module's initial values, on an empty store, at time \<open>t\<close>\<close>
  "init t = \<lparr>now = t, chain = Fulfilled, lastCall = 0, aiCache = Map.empty,
             lastSensorData = None, users = [], pendingReplies = [], nextId = 1,
             attempts = 0, trace = []\<rparr>"

definition emit :: "effect \<Rightarrow> world \<Rightarrow> world" where
  "emit e w = w\<lparr>trace := trace w @ [e]\<rparr>"

section \<open>Response cache\<close>

definition cacheKey :: "env \<Rightarrow> jsstring \<Rightarrow> jsval \<Rightarrow> jsval \<Rightarrow> jsval \<Rightarrow> cache_key" where
  \<comment> \<open>the source joins the four parts with \<open>|\<close>; the parts are kept apart here.
      The question goes in as it is passed; \<^verbatim>\<open>Math.round(l)\<close> converts its argument as
      \<^verbatim>\<open>Number(l)\<close> does\<close>
  "cacheKey env q l t h =
     (q, Math_round (Number (stringToNumber env) l), Math_round (Number (stringToNumber env) t),
      Math_round (Number (stringToNumber env) h))"

definition getCache :: "config \<Rightarrow> cache_key \<Rightarrow> world \<Rightarrow> jsstring option \<times> world" where
  "getCache cfg k w =
     (case aiCache w k of
        None \<Rightarrow> (None, w)
      | Some (t, val) \<Rightarrow>
          if of_int (int (now w) - int t) > CACHE_TTL_MS cfg
          then (None, w\<lparr>aiCache := (aiCache w)(k := None)\<rparr>)
          else (Some val, w))"

definition setCache :: "cache_key \<Rightarrow> jsstring \<Rightarrow> world \<Rightarrow> world" where
  "setCache k val w = w\<lparr>aiCache := (aiCache w)(k \<mapsto> (now w, val))\<rparr>"

section \<open>Completion transport\<close>

definition NO_API_KEY_TEXT :: jsstring where
  \<comment> \<open>the notice \<^verbatim>\<open>askOpenAI\<close> returns when \<open>OPENAI_API_KEY\<close> is not set\<close>
  "NO_API_KEY_TEXT =
     [10060, 32, 3618, 3633, 3591, 3652, 3617, 3656, 3652, 3604, 3657, 3605, 3633, 3657,
      3591, 3588, 3656, 3634, 32, 79, 80, 69, 78, 65, 73, 95, 65, 80, 73, 95, 75, 69, 89]"

definition NO_TEXT :: jsstring where
  \<comment> \<open>the text \<^verbatim>\<open>askOpenAI\<close> returns when the response carries none\<close>
  "NO_TEXT =
     [3652, 3617, 3656, 3617, 3637, 3586, 3657, 3629, 3588, 3623, 3634, 3617, 3605, 3629,
      3610, 3585, 3621, 3633, 3610]"

definition orNoText :: "jsstring option \<Rightarrow> jsstring" where
  \<comment> \<open>\<^verbatim>\<open>x ?? "..."\<close>\<close>
  "orNoText x = (case x of None \<Rightarrow> NO_TEXT | Some t \<Rightarrow> t)"

definition chatFallback :: "sdk \<Rightarrow> prompt \<Rightarrow> error \<Rightarrow> world \<Rightarrow> (error + jsstring) \<times> world" where
  \<comment> \<open>the \<^verbatim>\<open>catch (e1)\<close> block of \<^verbatim>\<open>askOpenAI\<close>\<close>
  "chatFallback s p e1 w =
     (case chat s of
        Resolves c \<Rightarrow> (Inr (orNoText c), emit (ChatCreate p) w)
      | Throws e2 \<Rightarrow> (Inl e2, emit (ChatCreate p) w)
      | Unavailable \<Rightarrow> (Inl e1, w))"

definition askOpenAI :: "config \<Rightarrow> env \<Rightarrow> prompt \<Rightarrow> world \<Rightarrow> (error + jsstring) \<times> world" where
  "askOpenAI cfg env p w =
     (if \<not> OPENAI_API_KEY cfg then (Inr NO_API_KEY_TEXT, w\<lparr>attempts := Suc (attempts w)\<rparr>)
      else
        let s = openai env (attempts w) p;
            w1 = w\<lparr>attempts := Suc (attempts w), now := now w + latency env (attempts w)\<rparr>
        in case responses s of
             Resolves txt \<Rightarrow> (Inr (orNoText txt), emit (ResponsesCreate p) w1)
           | Throws e1 \<Rightarrow> chatFallback s p e1 (emit (ResponsesCreate p) w1)
           | Unavailable \<Rightarrow> chatFallback s p NotAvailable w1)"

section \<open>Rate limiter and retry loop\<close>

fun removeFirstMs :: "jsstring \<Rightarrow> jsstring" where
  \<comment> \<open>\<^verbatim>\<open>s.replace("ms", "")\<close>: the first occurrence goes\<close>
  "removeFirstMs (a # b # r) = (if a = 109 \<and> b = 115 then r else a # removeFirstMs (b # r))"
| "removeFirstMs s = s"

definition parseRetryAfterMs :: "env \<Rightarrow> error \<Rightarrow> jsnum option" where
  "parseRetryAfterMs env err =
     (case err of
        ApiError _ h_ms h_s \<Rightarrow>
          (let raw = (case h_ms of
                        Some x \<Rightarrow> if x \<noteq> [] then Some x else h_s
                      | None \<Rightarrow> h_s)
           in case raw of
                None \<Rightarrow> None
              | Some r \<Rightarrow>
                  if r = [] then None
                  else
                    let s = trim r in
                    if suffix (js ''ms'') s then
                      (case stringToNumber env (removeFirstMs s) of
                         Finite x \<Rightarrow> if x = 0 then None else Some (Finite x)
                       | NaN \<Rightarrow> None
                       | n \<Rightarrow> Some n)
                    else
                      (case stringToNumber env s of
                         Finite sec \<Rightarrow> Some (multiply env (Finite sec) (Finite 1000))
                       | _ \<Rightarrow> None))
      | _ \<Rightarrow> None)"

definition timeoutMs :: "jsnum \<Rightarrow> nat" where
  \<comment> \<open>the duration a Node timer takes from its argument: 1 unless within 1 .. 2^31 - 1\<close>
  "timeoutMs d =
     (case d of
        Finite r \<Rightarrow> if 1 \<le> r \<and> r \<le> 2147483647 then nat \<lfloor>r\<rfloor> else 1
      | _ \<Rightarrow> 1)"

definition delay :: "env \<Rightarrow> jsnum \<Rightarrow> world \<Rightarrow> world" where
  "delay env d w = w\<lparr>now := now w + timeoutMs d + lateness env (now w)\<rparr>"

definition backoffMs :: "env \<Rightarrow> error \<Rightarrow> nat \<Rightarrow> world \<Rightarrow> jsnum" where
  \<comment> \<open>\<^verbatim>\<open>parseRetryAfterMs(err) ?? Math.min(30000, 2 ** attempt * 1000 + jitter)\<close>\<close>
  "backoffMs env err attempt w =
     (case parseRetryAfterMs env err of
        Some b \<Rightarrow> b
      | None \<Rightarrow>
          Finite (of_nat (min 30000 (2 ^ attempt * 1000 + random800 env (attempts w) mod 800))))"

definition backoff :: "env \<Rightarrow> error \<Rightarrow> nat \<Rightarrow> world \<Rightarrow> world" where
  \<comment> \<open>the end of the \<^verbatim>\<open>catch\<close> block: compute the backoff, warn, sleep\<close>
  "backoff env err attempt w =
     (let b = backoffMs env err attempt w
      in delay env b (emit (ConsoleWarn b attempt) w))"

function retryLoop :: "config \<Rightarrow> env \<Rightarrow> prompt \<Rightarrow> nat \<Rightarrow> world \<Rightarrow> (error + jsstring) \<times> world" where
  "retryLoop cfg env p attempt w =
     (case askOpenAI cfg env p w of
        (Inr out, w1) \<Rightarrow> (Inr out, w1\<lparr>lastCall := now w1\<rparr>)
      | (Inl err, w1) \<Rightarrow>
          if status err \<noteq> Some 429 \<or> OPENAI_MAX_RETRIES cfg \<le> of_nat attempt
          then (Inl err, w1)
          else retryLoop cfg env p (Suc attempt) (backoff env err (Suc attempt) w1))"
  by pat_completeness auto
termination
proof (relation "measure (\<lambda>(cfg, env, p, attempt, w). nat \<lceil>OPENAI_MAX_RETRIES cfg\<rceil> - attempt)")
  show "wf (measure (\<lambda>(cfg, env, p, attempt, w). nat \<lceil>OPENAI_MAX_RETRIES cfg\<rceil> - attempt))"
    by simp
next
  fix cfg :: config and env :: env and p :: prompt and attempt :: nat and w :: world
    and x2 :: world and a :: error
  assume "\<not> (status a \<noteq> Some 429 \<or> OPENAI_MAX_RETRIES cfg \<le> of_nat attempt)"
  then have "rat_of_nat attempt < OPENAI_MAX_RETRIES cfg"
    by simp
  then have "int attempt < \<lceil>OPENAI_MAX_RETRIES cfg\<rceil>"
    by (simp add: less_ceiling_iff)
  then show "((cfg, env, p, Suc attempt, backoff env a (Suc attempt) x2),
              (cfg, env, p, attempt, w))
             \<in> measure (\<lambda>(cfg, env, p, attempt, w). nat \<lceil>OPENAI_MAX_RETRIES cfg\<rceil> - attempt)"
    by simp
qed

definition safeAskOpenAI :: "config \<Rightarrow> env \<Rightarrow> prompt \<Rightarrow> world \<Rightarrow> (error + jsstring) \<times> world" where
  \<comment> \<open>\<^verbatim>\<open>chain = chain.then(body)\<close>: on a rejected \<^verbatim>\<open>chain\<close> the body is not run and
      the new promise is rejected with the same error\<close>
  "safeAskOpenAI cfg env p w =
     (case chain w of
        Rejected e \<Rightarrow> (Inl e, w)
      | Fulfilled \<Rightarrow>
          let wait = max 0 (int (lastCall w) + int (minGapMs cfg) - int (now w));
              w1 = (if wait > 0 then delay env (Finite (of_int wait)) w else w);
              (r, w2) = retryLoop cfg env p 0 (emit (Started (now w1) p) w1)
          in (r, w2\<lparr>chain := (case r of Inl e \<Rightarrow> Rejected e | Inr _ \<Rightarrow> Fulfilled)\<rparr>))"

section \<open>Completion orchestrator\<close>

definition askAndCache :: "config \<Rightarrow> env \<Rightarrow> cache_key \<Rightarrow> prompt \<Rightarrow> world \<Rightarrow> (error + jsstring) \<times> world" where
  \<comment> \<open>the last three lines of \<^verbatim>\<open>answerWithSensorAI\<close>: await the queue, store, return\<close>
  "askAndCache cfg env key p w =
     (case safeAskOpenAI cfg env p w of
        (Inl e, w1) \<Rightarrow> (Inl e, w1)
      | (Inr out, w1) \<Rightarrow> (Inr out, setCache key out w1))"

definition answerWithSensorAI ::
  "config \<Rightarrow> env \<Rightarrow> jsstring \<Rightarrow> jsval \<Rightarrow> jsval \<Rightarrow> jsval \<Rightarrow> world \<Rightarrow> (error + jsstring) \<times> world" where
  \<comment> \<open>\<^verbatim>\<open>if (cached) return cached\<close>: the empty string is falsy\<close>
  "answerWithSensorAI cfg env question l t h w =
     (let key = cacheKey env question l t h;
          (cached, w1) = getCache cfg key w
      in case cached of
           None \<Rightarrow> askAndCache cfg env key (Prompt l t h question) w1
         | Some v \<Rightarrow>
             if v \<noteq> [] then (Inr v, w1)
             else askAndCache cfg env key (Prompt l t h question) w1)"

section \<open>The queue under a sequence of submissions\<close>

text \<open>
  A submission is a call of \<^verbatim>\<open>safeAskOpenAI\<close> at some time with some prompt. The list is
  in submission order. The body of a submission runs once the promise before it has
  settled, so not before the submission and not before the end of the body before it.
  The result list holds, per submission, what its caller's promise settles to.
\<close>

fun run_queue :: "config \<Rightarrow> env \<Rightarrow> (nat \<times> prompt) list \<Rightarrow> world \<Rightarrow> (error + jsstring) list \<times> world" where
  "run_queue cfg env [] w = ([], w)"
| "run_queue cfg env ((t, p) # rest) w =
     (let (r, w1) = safeAskOpenAI cfg env p (w\<lparr>now := max (now w) t\<rparr>);
          (rs, w2) = run_queue cfg env rest w1
      in (r # rs, w2))"

fun starts :: "effect list \<Rightarrow> (nat \<times> prompt) list" where
  \<comment> \<open>the scheduled calls that started, with their start times, in order\<close>
  "starts [] = []"
| "starts (Started t p # es) = (t, p) # starts es"
| "starts (_ # es) = starts es"

fun isRemoteCall :: "effect \<Rightarrow> bool" where
  "isRemoteCall (ResponsesCreate _) = True"
| "isRemoteCall (ChatCreate _) = True"
| "isRemoteCall _ = False"

fun isDelete :: "effect \<Rightarrow> bool" where
  "isDelete (PendingDelete _) = True"
| "isDelete _ = False"


section \<open>Event processor\<close>

record event =
  ev_replyToken :: jsstring
  ev_userId :: jsstring
  ev_messageType :: "jsstring option"
  ev_text :: "jsstring option"

text \<open>
  \<^verbatim>\<open>processMessageEvent\<close> returns nothing; \<open>outcome\<close> names the \<^verbatim>\<open>return\<close> it reached.
  An event is handled in one piece here: no step of another event falls between two of
  its steps. The store is the two tables; a call to it, or to the chat platform, may
  throw.
\<close>

datatype outcome = Duplicate | NoReading | DirectStatus | EmptyAnswer | Replied

definition presetQuestions :: "jsstring list" where
  "presetQuestions =
     [[3626, 3616, 3634, 3614, 3629, 3634, 3585, 3634, 3624, 3605, 3629, 3609, 3609, 3637,
       3657, 3648, 3611, 3655, 3609, 3629, 3618, 3656, 3634, 3591, 3652, 3619],
      [3605, 3629, 3609, 3609, 3637, 3657, 3588, 3623, 3619, 3605, 3634, 3585, 3612, 3657,
       3634, 3652, 3627, 3617],
      [3605, 3629, 3609, 3609, 3637, 3657, 3588, 3623, 3619, 3614, 3585, 3619, 3656, 3617,
       3629, 3629, 3585, 3592, 3634, 3585, 3610, 3657, 3634, 3609, 3652, 3627, 3617],
      [3588, 3623, 3634, 3617, 3648, 3586, 3657, 3617, 3586, 3629, 3591, 3649, 3626, 3591,
       3605, 3629, 3609, 3609, 3637, 3657, 3648, 3611, 3655, 3609, 3629, 3618, 3656, 3634,
       3591, 3652, 3619],
      [3588, 3623, 3634, 3617, 3594, 3639, 3657, 3609, 3605, 3629, 3609, 3609, 3637, 3657,
       3648, 3611, 3655, 3609, 3629, 3618, 3656, 3634, 3591, 3652, 3619]]"

definition NO_MESSAGE_TEXT :: jsstring where
  \<comment> \<open>the text stored for an event without text\<close>
  "NO_MESSAGE_TEXT =
     [40, 3652, 3617, 3656, 3617, 3637, 3586, 3657, 3629, 3588, 3623, 3634, 3617, 41]"

function collapseWhiteSpace :: "jsstring \<Rightarrow> jsstring" where
  \<comment> \<open>\<^verbatim>\<open>text.replace(/\s+/g, " ")\<close>\<close>
  "collapseWhiteSpace [] = []"
| "collapseWhiteSpace (c # cs) =
     (if isWhiteSpace c then 32 # collapseWhiteSpace (dropWhile isWhiteSpace cs)
      else c # collapseWhiteSpace cs)"
  by pat_completeness auto
termination
  by (relation "measure length") (auto simp: length_dropWhile_le le_imp_less_Suc)

definition normalize :: "jsstring \<Rightarrow> jsstring" where
  \<comment> \<open>\<^verbatim>\<open>text.replace(/\s+/g, " ").trim()\<close>, the normal form \<^verbatim>\<open>processMessageEvent\<close>
      gives a text before it looks it up among the preset questions\<close>
  "normalize s = trim (collapseWhiteSpace s)"

definition replyToUser :: "env \<Rightarrow> jsstring \<Rightarrow> message \<Rightarrow> world \<Rightarrow> world" where
  \<comment> \<open>the request is made; its failure is caught and logged\<close>
  "replyToUser env token m w =
     (let w1 = emit (LineReply token m) w
      in if ioFails env (ReplyOp token) then emit (ConsoleError (ReplyOp token)) w1 else w1)"

definition deletePendingReply :: "env \<Rightarrow> nat \<Rightarrow> world \<Rightarrow> world" where
  \<comment> \<open>one delete request; the store throws when it fails or has no such record, which
      is caught and logged\<close>
  "deletePendingReply env i w =
     (let w1 = emit (PendingDelete i) w
      in if ioFails env (PendingDeleteOp i) \<or> i \<notin> set (map pid (pendingReplies w))
         then emit (ConsoleError (PendingDeleteOp i)) w1
         else w1\<lparr>pendingReplies := filter (\<lambda>r. pid r \<noteq> i) (pendingReplies w1)\<rparr>)"

definition upsertUser :: "env \<Rightarrow> jsstring \<Rightarrow> world \<Rightarrow> error + world" where
  \<comment> \<open>\<^verbatim>\<open>prisma.user.findUnique\<close>, then \<^verbatim>\<open>prisma.user.create\<close> when there is none\<close>
  "upsertUser env uid w =
     (if ioFails env (UserFind uid) then Inl (IoError (UserFind uid))
      else if uid \<in> set (users w) then Inr w
      else if ioFails env (UserCreate uid) then Inl (IoError (UserCreate uid))
      else Inr (w\<lparr>users := users w @ [uid]\<rparr>))"

definition findPending :: "jsstring \<Rightarrow> world \<Rightarrow> pending option" where
  "findPending token w = find (\<lambda>r. replyToken r = token) (pendingReplies w)"

definition createPending ::
  "env \<Rightarrow> jsstring \<Rightarrow> jsstring \<Rightarrow> jsstring \<Rightarrow> jsstring \<Rightarrow> world \<Rightarrow> error + pending \<times> world" where
  \<comment> \<open>the insert; the unique index on \<open>replyToken\<close> makes a second insert of a token throw\<close>
  "createPending env token uid mt txt w =
     (if ioFails env (PendingCreate token) \<or> findPending token w \<noteq> None
      then Inl (IoError (PendingCreate token))
      else
        let r = \<lparr>pid = nextId w, replyToken = token, userId = uid, messageType = mt,
                 ptext = txt, createdAt = now w\<rparr>
        in Inr (r, w\<lparr>pendingReplies := pendingReplies w @ [r], nextId := Suc (nextId w)\<rparr>))"

definition askAndReply ::
  "config \<Rightarrow> env \<Rightarrow> event \<Rightarrow> nat \<Rightarrow> jsstring \<Rightarrow> sensor_body \<Rightarrow> world \<Rightarrow> (error + outcome) \<times> world" where
  \<comment> \<open>from the acknowledgement to the end of \<^verbatim>\<open>processMessageEvent\<close>\<close>
  "askAndReply cfg env ev created normalizedText d w =
     (let w1 = replyToUser env (ev_replyToken ev) AskingAI w
      in case answerWithSensorAI cfg env normalizedText (light d) (temp d) (humidity d) w1 of
           (Inl e, w2) \<Rightarrow> (Inl e, w2)
         | (Inr aiText, w2) \<Rightarrow>
             let finalText = trim aiText
             in if finalText = []
                then (Inr EmptyAnswer,
                      deletePendingReply env created
                        (replyToUser env (ev_replyToken ev) EmptyAIAnswer w2))
                else
                  let w3 = emit (LinePush (ev_userId ev) (Answer normalizedText finalText)) w2
                  in if ioFails env (PushOp (ev_userId ev))
                     then (Inl (IoError (PushOp (ev_userId ev))), w3)
                     else (Inr Replied, deletePendingReply env created w3))"

definition classify ::
  "config \<Rightarrow> env \<Rightarrow> event \<Rightarrow> nat \<Rightarrow> jsstring \<Rightarrow> world \<Rightarrow> (error + outcome) \<times> world" where
  \<comment> \<open>\<^verbatim>\<open>processMessageEvent\<close> after the pending record \<open>created\<close> was inserted\<close>
  "classify cfg env ev created text w =
     (case lastSensorData w of
        None \<Rightarrow>
          (Inr NoReading,
           deletePendingReply env created (replyToUser env (ev_replyToken ev) NoSensorData w))
      | Some d \<Rightarrow>
          let normalizedText = normalize text
          in if normalizedText \<notin> set presetQuestions
             then (Inr DirectStatus,
                   deletePendingReply env created
                     (replyToUser env (ev_replyToken ev)
                        (ShortMsg (light d) (temp d) (humidity d)) w))
             else askAndReply cfg env ev created normalizedText d w)"

definition processMessageEvent :: "config \<Rightarrow> env \<Rightarrow> event \<Rightarrow> world \<Rightarrow> (error + outcome) \<times> world" where
  "processMessageEvent cfg env ev w =
     (let messageType = (case ev_messageType ev of
                           None \<Rightarrow> js ''unknown''
                         | Some t \<Rightarrow> if t = [] then js ''unknown'' else t)
      in if messageType = js ''text'' \<and> ev_text ev = None then (Inl TypeError, w)
         else
           let text = (case ev_text ev of
                         Some t \<Rightarrow> if messageType = js ''text'' then trim t else []
                       | None \<Rightarrow> [])
           in case upsertUser env (ev_userId ev) w of
                Inl e \<Rightarrow> (Inl e, w)
              | Inr w1 \<Rightarrow>
                  if ioFails env (PendingFind (ev_replyToken ev))
                  then (Inl (IoError (PendingFind (ev_replyToken ev))), w1)
                  else if findPending (ev_replyToken ev) w1 \<noteq> None then (Inr Duplicate, w1)
                  else
                    case createPending env (ev_replyToken ev) (ev_userId ev) messageType
                           (if text = [] then NO_MESSAGE_TEXT else text) w1 of
                      Inl e \<Rightarrow> (Inl e, w1)
                    | Inr (created, w2) \<Rightarrow> classify cfg env ev (pid created) text w2)"


section \<open>Invariants\<close>


definition store_inv :: "world \<Rightarrow> bool" where
  \<comment> \<open>the unique index on \<open>replyToken\<close> and the serial primary key\<close>
  "store_inv w =
     (distinct (map replyToken (pendingReplies w))
      \<and> (\<forall>r \<in> set (pendingReplies w). pid r < nextId w))"

definition returned :: "env \<Rightarrow> prompt \<Rightarrow> nat \<Rightarrow> jsstring option \<Rightarrow> bool" where
  \<comment> \<open>the completion service answers invocation \<open>n\<close> on prompt \<open>p\<close> with text \<open>x\<close>
      (\<open>None\<close>: a response without text)\<close>
  "returned env p n x =
     (responses (openai env n p) = Resolves x \<or> chat (openai env n p) = Resolves x)"

definition askOpenAI_value :: "config \<Rightarrow> env \<Rightarrow> prompt \<Rightarrow> nat \<Rightarrow> nat \<Rightarrow> jsstring \<Rightarrow> bool" where
  \<comment> \<open>what \<^verbatim>\<open>askOpenAI\<close> can return at the invocations \<open>lo \<le> n < hi\<close>: with a key, a
      text the service returned or the notice for a response without text; without a
      key, its notice that the key is missing\<close>
  "askOpenAI_value cfg env p lo hi v =
     (if OPENAI_API_KEY cfg
      then (\<exists>n \<in> {lo..<hi}. returned env p n (Some v) \<or> (returned env p n None \<and> v = NO_TEXT))
      else v = NO_API_KEY_TEXT)"

definition requests :: "world \<Rightarrow> nat" where
  \<comment> \<open>the number of requests sent to the completion service so far\<close>
  "requests w = length (filter isRemoteCall (trace w))"

section \<open>Reference settings and environments\<close>

definition defaults :: config where
  \<comment> \<open>the defaults of the source, with the key set\<close>
  "defaults = \<lparr>OPENAI_API_KEY = True, OPENAI_RPM = 2, OPENAI_MAX_RETRIES = 3,
               CACHE_TTL_MS = 120000\<rparr>"

definition throttling :: error where
  "throttling = ApiError (Some 429) None None"

definition server_error :: error where
  "server_error = ApiError (Some 500) None None"

definition plain_integer :: "jsstring \<Rightarrow> jsnum" where
  \<comment> \<open>a sample of the runtime's conversion: a string of one to fifteen decimal digits
      is that integer, as in ECMAScript, and so is \<open>NaN\<close> for a string of letters such as
      \<open>abc\<close>; it is put to no other string below\<close>
  "plain_integer s =
     (if s \<noteq> [] \<and> length s \<le> 15 \<and> list_all (\<lambda>c. 48 \<le> c \<and> c \<le> 57) s
      then Finite (of_nat (foldl (\<lambda>a c. 10 * a + (c - 48)) 0 s))
      else NaN)"

fun exact_product :: "jsnum \<Rightarrow> jsnum \<Rightarrow> jsnum" where
  \<comment> \<open>a sample of the runtime's product: right whenever the product of two finite
      numbers is a double\<close>
  "exact_product (Finite a) (Finite b) = Finite (a * b)"
| "exact_product _ _ = NaN"

definition scripted :: "(nat \<Rightarrow> jsstring option api) \<Rightarrow> env" where
  \<comment> \<open>an SDK with the Responses entry point only, answering the \<open>n\<close>-th invocation by
      \<open>f n\<close> after 5 ms; punctual timers, no jitter, a store and a chat platform that work\<close>
  "scripted f = \<lparr>openai = (\<lambda>n p. \<lparr>responses = f n, chat = Unavailable\<rparr>),
                 latency = (\<lambda>n. 5), random800 = (\<lambda>n. 0), lateness = (\<lambda>t. 0),
                 ioFails = (\<lambda>x. False), stringToNumber = plain_integer,
                 multiply = exact_product\<rparr>"

definition always_ok :: env where
  "always_ok = scripted (\<lambda>n. Resolves (Some (js ''ok'')))"

definition fails_first :: env where
  \<comment> \<open>the first completion request fails with status 500, every later one succeeds\<close>
  "fails_first = scripted (\<lambda>n. if n = 0 then Throws server_error else Resolves (Some (js ''ok'')))"

definition ask :: "string \<Rightarrow> prompt" where
  "ask q = Prompt (Num (Finite 20000)) (Num (Finite 32)) (Num (Finite 55)) (js q)"


definition no_key :: config where
  "no_key = defaults\<lparr>OPENAI_API_KEY := False\<rparr>"

definition empty_first :: env where
  \<comment> \<open>the first completion is the empty string, every later one is not\<close>
  "empty_first = scripted (\<lambda>n. if n = 0 then Resolves (Some []) else Resolves (Some (js ''ok'')))"

definition reading :: sensor_body where
  "reading = \<lparr>light = Num (Finite 20000), temp = Num (Finite 32), humidity = Num (Finite 55)\<rparr>"

definition answered :: "jsstring \<Rightarrow> world" where
  \<comment> \<open>the state after the first question of a fresh process, asked at time 1000000 on
      the reference reading, was answered with \<open>v\<close> in 5 ms\<close>
  "answered v =
     \<lparr>now = 1000005, chain = Fulfilled, lastCall = 1000005,
      aiCache = [(js ''q'', Finite 20000, Finite 32, Finite 55) \<mapsto> (1000005, v)],
      lastSensorData = None, users = [], pendingReplies = [], nextId = 1, attempts = 1,
      trace = [Started 1000000 (ask ''q''), ResponsesCreate (ask ''q'')]\<rparr>"

definition laundry :: jsstring where
  \<comment> \<open>the second of the preset questions\<close>
  "laundry =
     [3605, 3629, 3609, 3609, 3637, 3657, 3588, 3623, 3619, 3605, 3634, 3585, 3612, 3657,
      3634, 3652, 3627, 3617]"

definition text_event :: "jsstring \<Rightarrow> event" where
  \<comment> \<open>a text message of user \<open>u1\<close> with reply token \<open>t1\<close>\<close>
  "text_event txt = \<lparr>ev_replyToken = js ''t1'', ev_userId = js ''u1'',
                      ev_messageType = Some (js ''text''), ev_text = Some txt\<rparr>"

definition serving :: world where
  \<comment> \<open>a fresh process at time 1000000 that has ingested the reference reading\<close>
  "serving = (init 1000000)\<lparr>lastSensorData := Some reading\<rparr>"

definition well_formed :: "event \<Rightarrow> bool" where
  \<comment> \<open>a message of type \<open>text\<close> carries a text\<close>
  "well_formed ev = (ev_messageType ev = Some (js ''text'') \<longrightarrow> ev_text ev \<noteq> None)"





section \<open>Properties of the retry loop\<close>

declare retryLoop.simps [simp del]

lemma attempts_emit [simp]: "attempts (emit e w) = attempts w"
  by (simp add: emit_def)

lemma attempts_delay [simp]: "attempts (delay env d w) = attempts w"
  by (simp add: delay_def)

lemma attempts_backoff [simp]: "attempts (backoff env e a w) = attempts w"
  by (simp add: backoff_def Let_def)

lemma askOpenAI_attempts: "askOpenAI cfg env p w = (r, w') \<Longrightarrow> attempts w' = Suc (attempts w)"
  by (auto simp: askOpenAI_def chatFallback_def Let_def split: if_splits api.splits)

lemma retryLoop_success:
  "askOpenAI cfg env p w = (Inr v, w1) \<Longrightarrow> retryLoop cfg env p a w = (Inr v, w1\<lparr>lastCall := now w1\<rparr>)"
  by (subst retryLoop.simps) simp

lemma retryLoop_fatal:
  "askOpenAI cfg env p w = (Inl e, w1) \<Longrightarrow> status e \<noteq> Some 429 \<Longrightarrow> retryLoop cfg env p a w = (Inl e, w1)"
  by (subst retryLoop.simps) simp

lemma retryLoop_exhausted:
  "askOpenAI cfg env p w = (Inl e, w1) \<Longrightarrow> OPENAI_MAX_RETRIES cfg \<le> of_nat a \<Longrightarrow> retryLoop cfg env p a w = (Inl e, w1)"
  by (subst retryLoop.simps) simp

lemma retryLoop_retry:
  "askOpenAI cfg env p w = (Inl e, w1) \<Longrightarrow> status e = Some 429 \<Longrightarrow> of_nat a < OPENAI_MAX_RETRIES cfg
   \<Longrightarrow> retryLoop cfg env p a w = retryLoop cfg env p (Suc a) (backoff env e (Suc a) w1)"
  by (subst retryLoop.simps) simp

lemma retryLoop_always_throttled:
  assumes "\<forall>w. \<exists>e w'. askOpenAI cfg env p w = (Inl e, w') \<and> status e = Some 429"
  shows "a \<le> nat \<lceil>OPENAI_MAX_RETRIES cfg\<rceil> \<Longrightarrow>
     \<exists>e w' wl. retryLoop cfg env p a w = (Inl e, w') \<and> status e = Some 429
        \<and> askOpenAI cfg env p wl = (Inl e, w')
        \<and> attempts w' = attempts w + (nat \<lceil>OPENAI_MAX_RETRIES cfg\<rceil> - a) + 1"
proof (induction "nat \<lceil>OPENAI_MAX_RETRIES cfg\<rceil> - a" arbitrary: a w)
  case 0
  then have a: "a = nat \<lceil>OPENAI_MAX_RETRIES cfg\<rceil>" by simp
  then have le: "OPENAI_MAX_RETRIES cfg \<le> of_nat a"
    by (metis le_of_int_ceiling nat_0_iff nat_le_0 of_int_of_nat_eq of_nat_nat order.trans nle_le of_int_0_le_iff of_nat_0)
  from assms obtain e w' where r: "askOpenAI cfg env p w = (Inl e, w')" "status e = Some 429" by blast
  show ?case using retryLoop_exhausted [OF r(1) le] r askOpenAI_attempts [OF r(1)] a by auto
next
  case (Suc k)
  then have lt: "a < nat \<lceil>OPENAI_MAX_RETRIES cfg\<rceil>" by simp
  then have "int a < \<lceil>OPENAI_MAX_RETRIES cfg\<rceil>" by simp
  then have lt': "of_nat a < OPENAI_MAX_RETRIES cfg"
    by (metis less_ceiling_iff of_int_of_nat_eq)
  from assms obtain e w1 where r: "askOpenAI cfg env p w = (Inl e, w1)" "status e = Some 429" by blast
  have k: "k = nat \<lceil>OPENAI_MAX_RETRIES cfg\<rceil> - Suc a" using Suc.hyps(2) by simp
  have le: "Suc a \<le> nat \<lceil>OPENAI_MAX_RETRIES cfg\<rceil>" using lt by simp
  from Suc.hyps(1) [OF k le, of "backoff env e (Suc a) w1"]
  obtain e' w' wl where
    ih: "retryLoop cfg env p (Suc a) (backoff env e (Suc a) w1) = (Inl e', w')" "status e' = Some 429"
        "askOpenAI cfg env p wl = (Inl e', w')"
        "attempts w' = attempts (backoff env e (Suc a) w1) + (nat \<lceil>OPENAI_MAX_RETRIES cfg\<rceil> - Suc a) + 1"
    by blast
  show ?case
    using retryLoop_retry [OF r lt'] ih askOpenAI_attempts [OF r(1)] lt by auto
qed

lemma ask_scripted:
  "askOpenAI defaults (scripted f) p w =
     (case f (attempts w) of
        Resolves t \<Rightarrow> (Inr (orNoText t),
           emit (ResponsesCreate p) (w\<lparr>attempts := Suc (attempts w), now := now w + 5\<rparr>))
      | Throws e \<Rightarrow> (Inl e, emit (ResponsesCreate p) (w\<lparr>attempts := Suc (attempts w), now := now w + 5\<rparr>))
      | Unavailable \<Rightarrow> (Inl NotAvailable, w\<lparr>attempts := Suc (attempts w), now := now w + 5\<rparr>))"
  by (simp add: askOpenAI_def defaults_def scripted_def chatFallback_def Let_def split: api.splits)


text \<open>
  C5. The retry loop of \<^verbatim>\<open>safeAskOpenAI\<close>, entered at attempt 0. If the attempt throws
  an error of status 429, the attempt after the backoff throws one again, and the third
  attempt returns \<open>v\<close>, then with \<open>OPENAI_MAX_RETRIES \<ge> 2\<close> the loop returns \<open>v\<close> after
  exactly three invocations of \<^verbatim>\<open>askOpenAI\<close>. An error whose status is not 429 leaves
  the loop at once, after that one invocation. When every invocation is throttled, the
  loop ends with the error of its last invocation, after \<open>\<lceil>OPENAI_MAX_RETRIES\<rceil> + 1\<close>
  invocations.
\<close>

theorem retry_policy:
  "(askOpenAI cfg env p w = (Inl e1, w1) \<and> status e1 = Some 429
      \<and> askOpenAI cfg env p (backoff env e1 1 w1) = (Inl e2, w2) \<and> status e2 = Some 429
      \<and> askOpenAI cfg env p (backoff env e2 2 w2) = (Inr v, w3)
      \<and> 2 \<le> OPENAI_MAX_RETRIES cfg
    \<longrightarrow> retryLoop cfg env p 0 w = (Inr v, w3\<lparr>lastCall := now w3\<rparr>)
        \<and> attempts w3 = attempts w + 3)
   \<and> (askOpenAI cfg env p w = (Inl e, w') \<and> status e \<noteq> Some 429
    \<longrightarrow> retryLoop cfg env p a w = (Inl e, w') \<and> attempts w' = attempts w + 1)
   \<and> ((\<forall>u. \<exists>e u'. askOpenAI cfg env p u = (Inl e, u') \<and> status e = Some 429)
    \<longrightarrow> (\<exists>e u' ul. retryLoop cfg env p 0 w = (Inl e, u') \<and> status e = Some 429
           \<and> askOpenAI cfg env p ul = (Inl e, u')
           \<and> attempts u' = attempts w + nat \<lceil>OPENAI_MAX_RETRIES cfg\<rceil> + 1))"
proof (intro conjI impI)
  assume h: "askOpenAI cfg env p w = (Inl e1, w1) \<and> status e1 = Some 429
      \<and> askOpenAI cfg env p (backoff env e1 1 w1) = (Inl e2, w2) \<and> status e2 = Some 429
      \<and> askOpenAI cfg env p (backoff env e2 2 w2) = (Inr v, w3)
      \<and> 2 \<le> OPENAI_MAX_RETRIES cfg"
  have "retryLoop cfg env p 0 w = retryLoop cfg env p (Suc 0) (backoff env e1 (Suc 0) w1)"
    using h by (intro retryLoop_retry) auto
  also have "\<dots> = retryLoop cfg env p (Suc (Suc 0)) (backoff env e2 (Suc (Suc 0)) w2)"
    using h by (intro retryLoop_retry) auto
  also have "\<dots> = (Inr v, w3\<lparr>lastCall := now w3\<rparr>)"
    using h by (intro retryLoop_success) (simp add: numeral_2_eq_2)
  finally show "retryLoop cfg env p 0 w = (Inr v, w3\<lparr>lastCall := now w3\<rparr>)" .
  show "attempts w3 = attempts w + 3"
    using h askOpenAI_attempts [of cfg env p w "Inl e1" w1]
      askOpenAI_attempts [of cfg env p "backoff env e1 1 w1" "Inl e2" w2]
      askOpenAI_attempts [of cfg env p "backoff env e2 2 w2" "Inr v" w3]
    by simp
next
  assume h: "askOpenAI cfg env p w = (Inl e, w') \<and> status e \<noteq> Some 429"
  then show "retryLoop cfg env p a w = (Inl e, w')"
    by (simp add: retryLoop_fatal)
  show "attempts w' = attempts w + 1"
    using h askOpenAI_attempts [of cfg env p w "Inl e" w'] by simp
next
  assume "\<forall>u. \<exists>e u'. askOpenAI cfg env p u = (Inl e, u') \<and> status e = Some 429"
  from retryLoop_always_throttled [OF this, of 0 w]
  show "\<exists>e u' ul. retryLoop cfg env p 0 w = (Inl e, u') \<and> status e = Some 429
           \<and> askOpenAI cfg env p ul = (Inl e, u')
           \<and> attempts u' = attempts w + nat \<lceil>OPENAI_MAX_RETRIES cfg\<rceil> + 1"
    by simp
qed

theorem retry_policy_witness:
  "fst (retryLoop defaults
          (scripted (\<lambda>n. if n < 2 then Throws throttling else Resolves (Some (js ''ok''))))
          (Prompt Undefined Undefined Undefined []) 0 (init 1000)) = Inr (js ''ok'')
   \<and> fst (retryLoop defaults (scripted (\<lambda>n. Throws (ApiError (Some 500) None None)))
          (Prompt Undefined Undefined Undefined []) 0 (init 1000)) = Inl (ApiError (Some 500) None None)
   \<and> attempts (snd (retryLoop defaults (scripted (\<lambda>n. Throws throttling))
          (Prompt Undefined Undefined Undefined []) 0 (init 1000))) = 4"
proof -
  let ?p = "Prompt Undefined Undefined Undefined []"
  let ?A = "scripted (\<lambda>n. if n < 2 then Throws throttling else Resolves (Some (js ''ok'')))"
  let ?B = "scripted (\<lambda>n. Throws (ApiError (Some 500) None None))"
  let ?C = "scripted (\<lambda>n. Throws throttling)"
  let ?w1 = "snd (askOpenAI defaults ?A ?p (init 1000))"
  let ?w2 = "snd (askOpenAI defaults ?A ?p (backoff ?A throttling 1 ?w1))"
  let ?w3 = "snd (askOpenAI defaults ?A ?p (backoff ?A throttling 2 ?w2))"
  have a1: "askOpenAI defaults ?A ?p (init 1000) = (Inl throttling, ?w1)"
    by (simp add: ask_scripted init_def)
  have a2: "askOpenAI defaults ?A ?p (backoff ?A throttling 1 ?w1) = (Inl throttling, ?w2)"
    by (simp add: ask_scripted init_def)
  have a3: "askOpenAI defaults ?A ?p (backoff ?A throttling 2 ?w2) = (Inr (js ''ok''), ?w3)"
    by (simp add: ask_scripted init_def orNoText_def)
  have s: "status throttling = Some 429" "2 \<le> OPENAI_MAX_RETRIES defaults"
    by (simp_all add: throttling_def defaults_def)
  have A: "fst (retryLoop defaults ?A ?p 0 (init 1000)) = Inr (js ''ok'')"
    using retry_policy [of defaults ?A ?p "init 1000" throttling ?w1 throttling ?w2 "js ''ok''" ?w3]
      a1 a2 a3 s by simp
  have B: "retryLoop defaults ?B ?p 0 (init 1000)
           = (Inl (ApiError (Some 500) None None), snd (askOpenAI defaults ?B ?p (init 1000)))"
  proof (rule conjunct1 [OF mp [OF conjunct1 [OF conjunct2 [OF retry_policy]]]])
    show "askOpenAI defaults ?B ?p (init 1000)
            = (Inl (ApiError (Some 500) None None), snd (askOpenAI defaults ?B ?p (init 1000)))
          \<and> status (ApiError (Some 500) None None) \<noteq> Some 429"
      by (simp add: ask_scripted)
  qed
  have "\<exists>e u' ul. retryLoop defaults ?C ?p 0 (init 1000) = (Inl e, u') \<and> status e = Some 429
           \<and> askOpenAI defaults ?C ?p ul = (Inl e, u')
           \<and> attempts u' = attempts (init 1000) + nat \<lceil>OPENAI_MAX_RETRIES defaults\<rceil> + 1"
  proof (rule mp [OF conjunct2 [OF conjunct2 [OF retry_policy]]])
    show "\<forall>u. \<exists>e u'. askOpenAI defaults ?C ?p u = (Inl e, u') \<and> status e = Some 429"
      by (simp add: ask_scripted throttling_def)
  qed
  then have C: "attempts (snd (retryLoop defaults ?C ?p 0 (init 1000))) = 4"
    by (auto simp: defaults_def init_def)
  show ?thesis using A B C by simp
qed

section \<open>Properties of the queue\<close>

lemma starts_append: "starts (xs @ ys) = starts xs @ starts ys"
  by (induction xs rule: starts.induct) simp_all

lemma emit_fields [simp]:
  "now (emit e w) = now w" "lastCall (emit e w) = lastCall w" "chain (emit e w) = chain w"
  "aiCache (emit e w) = aiCache w" "trace (emit e w) = trace w @ [e]"
  "pendingReplies (emit e w) = pendingReplies w" "users (emit e w) = users w"
  "lastSensorData (emit e w) = lastSensorData w" "nextId (emit e w) = nextId w"
  by (simp_all add: emit_def)

lemma delay_fields [simp]:
  "now (delay env d w) = now w + timeoutMs d + lateness env (now w)"
  "lastCall (delay env d w) = lastCall w" "chain (delay env d w) = chain w"
  "aiCache (delay env d w) = aiCache w" "trace (delay env d w) = trace w"
  "pendingReplies (delay env d w) = pendingReplies w" "users (delay env d w) = users w"
  "lastSensorData (delay env d w) = lastSensorData w" "nextId (delay env d w) = nextId w"
  by (simp_all add: delay_def)

lemma backoff_fields [simp]:
  "lastCall (backoff env e a w) = lastCall w" "chain (backoff env e a w) = chain w"
  "aiCache (backoff env e a w) = aiCache w"
  "starts (trace (backoff env e a w)) = starts (trace w)"
  "pendingReplies (backoff env e a w) = pendingReplies w" "users (backoff env e a w) = users w"
  "lastSensorData (backoff env e a w) = lastSensorData w" "nextId (backoff env e a w) = nextId w"
  by (simp_all add: backoff_def Let_def starts_append)

lemma backoff_now: "now w \<le> now (backoff env e a w)"
  by (simp add: backoff_def Let_def)

lemma askOpenAI_fields:
  assumes "askOpenAI cfg env p w = (r, w')"
  shows "lastCall w' = lastCall w" "chain w' = chain w" "aiCache w' = aiCache w"
    "starts (trace w') = starts (trace w)" "now w \<le> now w'"
    "pendingReplies w' = pendingReplies w" "users w' = users w"
    "lastSensorData w' = lastSensorData w" "nextId w' = nextId w"
  using assms
  by (auto simp: askOpenAI_def chatFallback_def Let_def starts_append split: if_splits api.splits)

lemma retryLoop_fields:
  "retryLoop cfg env p a w = (r, w') \<Longrightarrow>
     chain w' = chain w \<and> aiCache w' = aiCache w \<and> starts (trace w') = starts (trace w)
     \<and> now w \<le> now w' \<and> pendingReplies w' = pendingReplies w \<and> users w' = users w
     \<and> lastSensorData w' = lastSensorData w \<and> nextId w' = nextId w
     \<and> lastCall w' = (case r of Inr _ \<Rightarrow> now w' | Inl _ \<Rightarrow> lastCall w)"
proof (induction cfg env p a w arbitrary: r w' rule: retryLoop.induct)
  case (1 cfg env p attempt w)
  obtain r1 w1 where a: "askOpenAI cfg env p w = (r1, w1)" by (cases "askOpenAI cfg env p w")
  note f = askOpenAI_fields [OF a]
  show ?case
  proof (cases r1)
    case (Inr out)
    with a "1.prems" have "r = Inr out" "w' = w1\<lparr>lastCall := now w1\<rparr>"
      by (simp_all add: retryLoop.simps [of cfg env p attempt w])
    with f show ?thesis by simp
  next
    case (Inl err)
    show ?thesis
    proof (cases "status err \<noteq> Some 429 \<or> OPENAI_MAX_RETRIES cfg \<le> of_nat attempt")
      case True
      with a Inl "1.prems" have "r = Inl err" "w' = w1"
        by (auto simp add: retryLoop.simps [of cfg env p attempt w])
      with f show ?thesis by simp
    next
      case False
      with a Inl "1.prems"
      have rec: "retryLoop cfg env p (Suc attempt) (backoff env err (Suc attempt) w1) = (r, w')"
        by (auto simp add: retryLoop.simps [of cfg env p attempt w])
      from "1.IH" [OF a [symmetric] Inl False rec]
      have "chain w' = chain (backoff env err (Suc attempt) w1) \<and>
        aiCache w' = aiCache (backoff env err (Suc attempt) w1) \<and>
        starts (trace w') = starts (trace (backoff env err (Suc attempt) w1)) \<and>
        now (backoff env err (Suc attempt) w1) \<le> now w' \<and>
        pendingReplies w' = pendingReplies (backoff env err (Suc attempt) w1) \<and>
        users w' = users (backoff env err (Suc attempt) w1) \<and>
        lastSensorData w' = lastSensorData (backoff env err (Suc attempt) w1) \<and>
        nextId w' = nextId (backoff env err (Suc attempt) w1) \<and>
        lastCall w' = (case r of Inr _ \<Rightarrow> now w' | Inl _ \<Rightarrow> lastCall (backoff env err (Suc attempt) w1))"
        by simp
      with f backoff_now [of w1 env err "Suc attempt"] show ?thesis
        by (auto split: sum.splits)
    qed
  qed
qed



lemma safeAskOpenAI_rejected: "chain w = Rejected e \<Longrightarrow> safeAskOpenAI cfg env p w = (Inl e, w)"
  by (simp add: safeAskOpenAI_def)


lemma sorted_wrt_snoc: "sorted_wrt P (xs @ [x]) \<longleftrightarrow> sorted_wrt P xs \<and> (\<forall>y \<in> set xs. P y x)"
  by (simp add: sorted_wrt_append)






subsection \<open>Runs in a scripted environment\<close>

lemma askOpenAI_scripted:
  "OPENAI_API_KEY cfg \<Longrightarrow> askOpenAI cfg (scripted f) p w =
     (case f (attempts w) of
        Resolves t \<Rightarrow> (Inr (orNoText t),
           emit (ResponsesCreate p) (w\<lparr>attempts := Suc (attempts w), now := now w + 5\<rparr>))
      | Throws e \<Rightarrow> (Inl e, emit (ResponsesCreate p) (w\<lparr>attempts := Suc (attempts w), now := now w + 5\<rparr>))
      | Unavailable \<Rightarrow> (Inl NotAvailable, w\<lparr>attempts := Suc (attempts w), now := now w + 5\<rparr>))"
  by (simp add: askOpenAI_def scripted_def chatFallback_def Let_def split: api.splits)

lemma retryLoop_scripted:
  "OPENAI_API_KEY cfg \<Longrightarrow> retryLoop cfg (scripted f) p a w =
     (case f (attempts w) of
        Resolves t \<Rightarrow> (Inr (orNoText t),
           emit (ResponsesCreate p) (w\<lparr>attempts := Suc (attempts w), now := now w + 5, lastCall := now w + 5\<rparr>))
      | Throws e \<Rightarrow>
          (if status e \<noteq> Some 429 \<or> OPENAI_MAX_RETRIES cfg \<le> of_nat a
           then (Inl e, emit (ResponsesCreate p) (w\<lparr>attempts := Suc (attempts w), now := now w + 5\<rparr>))
           else retryLoop cfg (scripted f) p (Suc a)
                  (backoff (scripted f) e (Suc a)
                     (emit (ResponsesCreate p) (w\<lparr>attempts := Suc (attempts w), now := now w + 5\<rparr>))))
      | Unavailable \<Rightarrow> (Inl NotAvailable, w\<lparr>attempts := Suc (attempts w), now := now w + 5\<rparr>))"
  by (subst retryLoop.simps) (simp add: askOpenAI_scripted emit_def split: api.splits)

lemma scripted_simps [simp]:
  "openai (scripted f) n p = \<lparr>responses = f n, chat = Unavailable\<rparr>"
  "latency (scripted f) n = 5" "random800 (scripted f) n = 0" "lateness (scripted f) t = 0"
  "ioFails (scripted f) x = False" "stringToNumber (scripted f) = plain_integer"
  "multiply (scripted f) = exact_product"
  by (simp_all add: scripted_def)

lemma defaults_simps [simp]:
  "OPENAI_API_KEY defaults" "OPENAI_RPM defaults = 2" "OPENAI_MAX_RETRIES defaults = 3"
  "CACHE_TTL_MS defaults = 120000"
  by (simp_all add: defaults_def)


lemma fails_first_run:
  "run_queue defaults fails_first [(1000000, ask ''a''), (2000000, ask ''b'')] (init 1000000)
   = ([Inl server_error, Inl server_error],
      \<lparr>now = 2000000, chain = Rejected server_error, lastCall = 0, aiCache = Map.empty,
       lastSensorData = None, users = [], pendingReplies = [], nextId = 1, attempts = 1,
       trace = [Started 1000000 (ask ''a''), ResponsesCreate (ask ''a'')]\<rparr>)"
  by (simp add: fails_first_def safeAskOpenAI_def retryLoop_scripted init_def minGapMs_def
      emit_def delay_def timeoutMs_def orNoText_def Let_def server_error_def)




text \<open>
  C1. Two submissions; the completion request of the first fails with status 500, any
  later request would succeed. The first caller gets the error. The second caller,
  a thousand seconds later, gets the same error, its call never starts and no second
  request is made, while on a live queue the same submission is answered.
\<close>

theorem queue_dead_after_failure:
  "fst (run_queue defaults fails_first [(1000000, ask ''a''), (2000000, ask ''b'')] (init 1000000))
     = [Inl server_error, Inl server_error]
   \<and> map snd (starts (trace (snd (run_queue defaults fails_first
        [(1000000, ask ''a''), (2000000, ask ''b'')] (init 1000000))))) = [ask ''a'']
   \<and> attempts (snd (run_queue defaults fails_first
        [(1000000, ask ''a''), (2000000, ask ''b'')] (init 1000000))) = 1
   \<and> fst (safeAskOpenAI defaults fails_first (ask ''b'') ((init 2000000)\<lparr>attempts := 1\<rparr>))
     = Inr (js ''ok'')"
proof -
  have "fst (safeAskOpenAI defaults fails_first (ask ''b'') ((init 2000000)\<lparr>attempts := 1\<rparr>))
     = Inr (js ''ok'')"
    by (simp add: fails_first_def safeAskOpenAI_def retryLoop_scripted init_def minGapMs_def
      emit_def delay_def timeoutMs_def orNoText_def Let_def)
  then show ?thesis by (simp only: fails_first_run) simp
qed

section \<open>Properties of the orchestrator\<close>

lemma askOpenAI_origin:
  "askOpenAI cfg env p w = (Inr v, w') \<Longrightarrow> askOpenAI_value cfg env p (attempts w) (Suc (attempts w)) v"
  by (auto simp: askOpenAI_def chatFallback_def Let_def askOpenAI_value_def returned_def orNoText_def
      split: if_splits api.splits option.splits)

lemma askOpenAI_value_mono:
  "askOpenAI_value cfg env p lo hi v \<Longrightarrow> lo' \<le> lo \<Longrightarrow> hi \<le> hi' \<Longrightarrow> askOpenAI_value cfg env p lo' hi' v"
  by (fastforce simp: askOpenAI_value_def split: if_splits)

lemma retryLoop_attempts_mono: "retryLoop cfg env p a w = (r, w') \<Longrightarrow> attempts w < attempts w'"
proof (induction cfg env p a w arbitrary: r w' rule: retryLoop.induct)
  case (1 cfg env p attempt w)
  obtain r1 w1 where a: "askOpenAI cfg env p w = (r1, w1)" by (cases "askOpenAI cfg env p w")
  note n = askOpenAI_attempts [OF a]
  show ?case
  proof (cases r1)
    case (Inr out)
    with a "1.prems" n show ?thesis by (auto simp add: retryLoop.simps [of cfg env p attempt w])
  next
    case (Inl err)
    show ?thesis
    proof (cases "status err \<noteq> Some 429 \<or> OPENAI_MAX_RETRIES cfg \<le> of_nat attempt")
      case True
      with a Inl "1.prems" n show ?thesis by (auto simp add: retryLoop.simps [of cfg env p attempt w])
    next
      case False
      with a Inl "1.prems"
      have rec: "retryLoop cfg env p (Suc attempt) (backoff env err (Suc attempt) w1) = (r, w')"
        by (auto simp add: retryLoop.simps [of cfg env p attempt w])
      from "1.IH" [OF a [symmetric] Inl False rec] n show ?thesis by simp
    qed
  qed
qed

lemma retryLoop_origin:
  "retryLoop cfg env p a w = (Inr v, w') \<Longrightarrow> askOpenAI_value cfg env p (attempts w) (attempts w') v"
proof (induction cfg env p a w arbitrary: w' rule: retryLoop.induct)
  case (1 cfg env p attempt w)
  obtain r1 w1 where a: "askOpenAI cfg env p w = (r1, w1)" by (cases "askOpenAI cfg env p w")
  note n = askOpenAI_attempts [OF a]
  show ?case
  proof (cases r1)
    case (Inr out)
    with a "1.prems" have "out = v" "attempts w' = Suc (attempts w)"
      using n by (auto simp add: retryLoop.simps [of cfg env p attempt w])
    with askOpenAI_origin [of cfg env p w out w1] a Inr show ?thesis by simp
  next
    case (Inl err)
    show ?thesis
    proof (cases "status err \<noteq> Some 429 \<or> OPENAI_MAX_RETRIES cfg \<le> of_nat attempt")
      case True
      with a Inl "1.prems" show ?thesis by (auto simp add: retryLoop.simps [of cfg env p attempt w])
    next
      case False
      with a Inl "1.prems"
      have rec: "retryLoop cfg env p (Suc attempt) (backoff env err (Suc attempt) w1) = (Inr v, w')"
        by (auto simp add: retryLoop.simps [of cfg env p attempt w])
      from "1.IH" [OF a [symmetric] Inl False rec]
      have v: "askOpenAI_value cfg env p (attempts w1) (attempts w') v" by simp
      show ?thesis by (rule askOpenAI_value_mono [OF v]) (simp_all add: n)
    qed
  qed
qed

lemma safeAskOpenAI_attempts:
  "safeAskOpenAI cfg env p w = (r, w') \<Longrightarrow>
     (chain w = Fulfilled \<longrightarrow> attempts w < attempts w') \<and> (chain w \<noteq> Fulfilled \<longrightarrow> w' = w)"
  by (cases "chain w")
     (auto simp: safeAskOpenAI_def Let_def split: prod.splits if_splits dest!: retryLoop_attempts_mono)

lemma safeAskOpenAI_origin:
  "safeAskOpenAI cfg env p w = (Inr v, w') \<Longrightarrow> askOpenAI_value cfg env p (attempts w) (attempts w') v"
  by (cases "chain w")
     (auto simp: safeAskOpenAI_def Let_def split: prod.splits if_splits dest!: retryLoop_origin)

lemma safeAskOpenAI_frame:
  assumes "safeAskOpenAI cfg env p w = (r, w')"
  shows "aiCache w' = aiCache w" "pendingReplies w' = pendingReplies w" "users w' = users w"
    "lastSensorData w' = lastSensorData w" "nextId w' = nextId w" "now w \<le> now w'"
    "(case r of Inl e \<Rightarrow> chain w' = Rejected e | Inr _ \<Rightarrow> chain w' = Fulfilled)"
proof -
  have "aiCache w' = aiCache w \<and> pendingReplies w' = pendingReplies w \<and> users w' = users w \<and>
    lastSensorData w' = lastSensorData w \<and> nextId w' = nextId w \<and> now w \<le> now w' \<and>
    (case r of Inl e \<Rightarrow> chain w' = Rejected e | Inr _ \<Rightarrow> chain w' = Fulfilled)"
  proof (cases "chain w")
    case (Rejected e)
    with assms show ?thesis by (auto simp: safeAskOpenAI_rejected)
  next
    case Fulfilled
    define w1 where "w1 = (if 0 < max 0 (int (lastCall w) + int (minGapMs cfg) - int (now w))
       then delay env (Finite (of_int (max 0 (int (lastCall w) + int (minGapMs cfg) - int (now w))))) w else w)"
    obtain r2 w2 where rl: "retryLoop cfg env p 0 (emit (Started (now w1) p) w1) = (r2, w2)"
      by (cases "retryLoop cfg env p 0 (emit (Started (now w1) p) w1)")
    from assms Fulfilled rl have r: "r = r2"
      and w': "w' = w2\<lparr>chain := (case r2 of Inl e \<Rightarrow> Rejected e | Inr _ \<Rightarrow> Fulfilled)\<rparr>"
      by (auto simp add: safeAskOpenAI_def Let_def w1_def [symmetric])
    have "now w \<le> now w1" by (simp add: w1_def)
    with retryLoop_fields [OF rl] show ?thesis
      by (auto simp: r w' w1_def split: sum.splits)
  qed
  then show "aiCache w' = aiCache w" "pendingReplies w' = pendingReplies w" "users w' = users w"
    "lastSensorData w' = lastSensorData w" "nextId w' = nextId w" "now w \<le> now w'"
    "(case r of Inl e \<Rightarrow> chain w' = Rejected e | Inr _ \<Rightarrow> chain w' = Fulfilled)"
    by simp_all
qed

lemma getCache_cases:
  "getCache cfg k w = (c, w1) \<Longrightarrow>
     (c = None \<and> aiCache w k = None \<and> w1 = w)
     \<or> (\<exists>ins val. aiCache w k = Some (ins, val) \<and> CACHE_TTL_MS cfg < of_int (int (now w) - int ins)
            \<and> c = None \<and> w1 = w\<lparr>aiCache := (aiCache w)(k := None)\<rparr>)
     \<or> (\<exists>ins val. aiCache w k = Some (ins, val) \<and> of_int (int (now w) - int ins) \<le> CACHE_TTL_MS cfg
            \<and> c = Some val \<and> w1 = w)"
  by (auto simp: getCache_def split: option.splits if_splits)

lemma getCache_frame:
  "getCache cfg k w = (c, w1) \<Longrightarrow>
     attempts w1 = attempts w \<and> trace w1 = trace w \<and> chain w1 = chain w \<and> now w1 = now w
     \<and> lastCall w1 = lastCall w
     \<and> (\<forall>k'. aiCache w1 k' = aiCache w k' \<or> aiCache w1 k' = None)"
  by (auto simp: getCache_def split: option.splits if_splits)

lemma getCache_fresh:
  "aiCache w k = Some (ins, val) \<Longrightarrow> of_int (int (now w) - int ins) \<le> CACHE_TTL_MS cfg
   \<Longrightarrow> getCache cfg k w = (Some val, w)"
  by (simp add: getCache_def)

lemma askAndCache_result:
  assumes "askAndCache cfg env key p w = (r, w')"
  shows "case r of
           Inl e \<Rightarrow> aiCache w' = aiCache w \<and> chain w' = Rejected e
         | Inr v \<Rightarrow> aiCache w' = (aiCache w)(key \<mapsto> (now w', v))
                    \<and> askOpenAI_value cfg env p (attempts w) (attempts w') v"
proof -
  obtain r1 w1 where s: "safeAskOpenAI cfg env p w = (r1, w1)" by (cases "safeAskOpenAI cfg env p w")
  note f = safeAskOpenAI_frame [OF s]
  show ?thesis
  proof (cases r1)
    case (Inl e)
    with assms s have "r = Inl e" "w' = w1" by (simp_all add: askAndCache_def)
    with f Inl show ?thesis by simp
  next
    case (Inr out)
    with assms s have r: "r = Inr out" "w' = setCache key out w1" by (simp_all add: askAndCache_def)
    from s Inr have "askOpenAI_value cfg env p (attempts w) (attempts w1) out"
      by (simp add: safeAskOpenAI_origin)
    with f r show ?thesis by (simp add: setCache_def)
  qed
qed

lemma floor_rat_numeral [simp]: "\<lfloor>numeral a / numeral b :: rat\<rfloor> = numeral a div numeral b"
  using floor_divide_of_int_eq [of "numeral a" "numeral b", where ?'a = rat] by simp

lemma round_reading [simp]:
  "Math_round (Finite 20000) = Finite 20000" "Math_round (Finite 32) = Finite 32"
  "Math_round (Finite 55) = Finite 55"
  by simp_all

lemma ok_run:
  "answerWithSensorAI defaults always_ok (js ''q'') (Num (Finite 20000)) (Num (Finite 32)) (Num (Finite 55))
     (init 1000000)
   = (Inr (js ''ok''), answered (js ''ok''))"
  by (simp add: answerWithSensorAI_def askAndCache_def getCache_def setCache_def cacheKey_def
      always_ok_def safeAskOpenAI_def retryLoop_scripted init_def minGapMs_def answered_def ask_def
      emit_def delay_def timeoutMs_def orNoText_def Let_def)

lemma no_key_run:
  "answerWithSensorAI no_key always_ok (js ''q'') (Num (Finite 20000)) (Num (Finite 32)) (Num (Finite 55))
     (init 1000000)
   = (Inr NO_API_KEY_TEXT,
      \<lparr>now = 1000000, chain = Fulfilled, lastCall = 1000000,
       aiCache = [(js ''q'', Finite 20000, Finite 32, Finite 55) \<mapsto> (1000000, NO_API_KEY_TEXT)],
       lastSensorData = None, users = [], pendingReplies = [], nextId = 1, attempts = 1,
       trace = [Started 1000000 (Prompt (Num (Finite 20000)) (Num (Finite 32)) (Num (Finite 55)) (js ''q''))]\<rparr>)"
  by (simp add: answerWithSensorAI_def askAndCache_def getCache_def setCache_def cacheKey_def
      no_key_def safeAskOpenAI_def retryLoop.simps [of _ _ _ 0] askOpenAI_def init_def minGapMs_def
      emit_def delay_def timeoutMs_def Let_def)

lemma answerWithSensorAI_cases:
  "answerWithSensorAI cfg env q l t h w = (r, w') \<Longrightarrow>
     (case r of
        Inl e \<Rightarrow> chain w' = Rejected e \<and> (\<forall>k. aiCache w' k = aiCache w k \<or> aiCache w' k = None)
      | Inr v \<Rightarrow>
          (w' = w \<and> (\<exists>ins. aiCache w (cacheKey env q l t h) = Some (ins, v)))
          \<or> (aiCache w' (cacheKey env q l t h) = Some (now w', v)
              \<and> (\<forall>k. k \<noteq> cacheKey env q l t h \<longrightarrow> aiCache w' k = aiCache w k)
              \<and> askOpenAI_value cfg env (Prompt l t h q) (attempts w) (attempts w') v))"
proof -
  assume a: "answerWithSensorAI cfg env q l t h w = (r, w')"
  let ?k = "cacheKey env q l t h"
  obtain c w1 where g: "getCache cfg ?k w = (c, w1)" by (cases "getCache cfg ?k w")
  note gf = getCache_frame [OF g]
  have hit: ?thesis if "c = Some v" "v \<noteq> []" for v
  proof -
    from a g that have "r = Inr v" "w' = w1" by (simp_all add: answerWithSensorAI_def)
    moreover from getCache_cases [OF g] that have "w1 = w" "\<exists>ins. aiCache w ?k = Some (ins, v)"
      by auto
    ultimately show ?thesis by simp
  qed
  have miss: ?thesis if m: "askAndCache cfg env ?k (Prompt l t h q) w1 = (r, w')"
  proof -
    from getCache_cases [OF g]
    have c1: "\<forall>k. k \<noteq> ?k \<longrightarrow> aiCache w1 k = aiCache w k" by auto
    note ar = askAndCache_result [OF m]
    show ?thesis
    proof (cases r)
      case (Inl e)
      with ar gf show ?thesis by simp
    next
      case (Inr v)
      with ar have "aiCache w' = (aiCache w1)(?k \<mapsto> (now w', v))"
        "askOpenAI_value cfg env (Prompt l t h q) (attempts w1) (attempts w') v" by simp_all
      with c1 gf Inr show ?thesis by simp
    qed
  qed
  show ?thesis
  proof (cases c)
    case None
    with a g have "askAndCache cfg env ?k (Prompt l t h q) w1 = (r, w')"
      by (simp add: answerWithSensorAI_def)
    then show ?thesis by (rule miss)
  next
    case (Some v)
    show ?thesis
    proof (cases "v = []")
      case True
      with a g Some have "askAndCache cfg env ?k (Prompt l t h q) w1 = (r, w')"
        by (simp add: answerWithSensorAI_def)
      then show ?thesis by (rule miss)
    next
      case False
      with Some show ?thesis by (intro hit)
    qed
  qed
qed

lemma answer_leaves_entry:
  "answerWithSensorAI cfg env q l t h w = (Inr v, w') \<Longrightarrow>
     \<exists>ins. aiCache w' (cacheKey env q l t h) = Some (ins, v)"
  using answerWithSensorAI_cases [of cfg env q l t h w "Inr v" w'] by auto

lemma empty_first_run:
  "answerWithSensorAI defaults empty_first (js ''q'') (Num (Finite 20000)) (Num (Finite 32)) (Num (Finite 55))
     (init 1000000)
   = (Inr [], answered [])"
  by (simp add: answerWithSensorAI_def askAndCache_def getCache_def setCache_def cacheKey_def
      empty_first_def safeAskOpenAI_def retryLoop_scripted init_def minGapMs_def answered_def ask_def
      emit_def delay_def timeoutMs_def orNoText_def Let_def)

lemma empty_first_again:
  "answerWithSensorAI defaults empty_first (js ''q'') (Num (Finite 20000)) (Num (Finite 32)) (Num (Finite 55))
     (answered [])
   = (Inr (js ''ok''),
      \<lparr>now = 1030010, chain = Fulfilled, lastCall = 1030010,
       aiCache = [(js ''q'', Finite 20000, Finite 32, Finite 55) \<mapsto> (1030010, js ''ok'')],
       lastSensorData = None, users = [], pendingReplies = [], nextId = 1, attempts = 2,
       trace = [Started 1000000 (ask ''q''), ResponsesCreate (ask ''q''),
                Started 1030005 (ask ''q''), ResponsesCreate (ask ''q'')]\<rparr>)"
  by (simp add: answerWithSensorAI_def askAndCache_def getCache_def setCache_def cacheKey_def
      empty_first_def safeAskOpenAI_def retryLoop_scripted minGapMs_def answered_def ask_def
      emit_def delay_def timeoutMs_def orNoText_def Let_def)


text \<open>
  C3, amended. Whatever \<^verbatim>\<open>answerWithSensorAI\<close> does, with result \<open>r\<close>: if \<open>r\<close> is a
  failure, it is the failure the queue ended with, and nothing was stored in the cache
  (an expired entry may have been purged). If \<open>r\<close> is a text, either it is the cached
  text and nothing changed, or it is stored under the key at the current time, no other
  key changed, and it is a value of \<^verbatim>\<open>askOpenAI\<close> at one of the invocations made: a
  text the completion service returned or, in place of one, the notice
  \<^verbatim>\<open>askOpenAI\<close> returns for a response without text or for a missing API key.
\<close>

theorem answer_failure_and_cache:
  "answerWithSensorAI cfg env q l t h w = (r, w') \<Longrightarrow>
     (case r of
        Inl e \<Rightarrow> chain w' = Rejected e \<and> (\<forall>k. aiCache w' k = aiCache w k \<or> aiCache w' k = None)
      | Inr v \<Rightarrow>
          (w' = w \<and> (\<exists>ins. aiCache w (cacheKey env q l t h) = Some (ins, v)))
          \<or> (aiCache w' (cacheKey env q l t h) = Some (now w', v)
              \<and> (\<forall>k. k \<noteq> cacheKey env q l t h \<longrightarrow> aiCache w' k = aiCache w k)
              \<and> askOpenAI_value cfg env (Prompt l t h q) (attempts w) (attempts w') v))"
  by (rule answerWithSensorAI_cases)

theorem answer_failure_and_cache_witness:
  "aiCache (snd (answerWithSensorAI defaults always_ok (js ''q'') (Num (Finite 20000))
                   (Num (Finite 32)) (Num (Finite 55)) (init 1000000)))
     (cacheKey always_ok (js ''q'') (Num (Finite 20000)) (Num (Finite 32)) (Num (Finite 55)))
     = Some (1000005, js ''ok'')
   \<and> askOpenAI_value defaults always_ok
        (Prompt (Num (Finite 20000)) (Num (Finite 32)) (Num (Finite 55)) (js ''q'')) 0 1 (js ''ok'')"
  using answer_failure_and_cache [OF ok_run] unfolding ok_run
  by (simp add: cacheKey_def init_def answered_def)


text \<open>
  The claim C3 as stated fails: without an API key no request is made, and the notice
  that the key is missing is returned as the answer and stored in the cache.
\<close>

theorem placeholder_cached_counterexample:
  "fst (answerWithSensorAI no_key always_ok (js ''q'') (Num (Finite 20000)) (Num (Finite 32))
          (Num (Finite 55)) (init 1000000)) = Inr NO_API_KEY_TEXT
   \<and> aiCache (snd (answerWithSensorAI no_key always_ok (js ''q'') (Num (Finite 20000))
          (Num (Finite 32)) (Num (Finite 55)) (init 1000000)))
        (cacheKey always_ok (js ''q'') (Num (Finite 20000)) (Num (Finite 32)) (Num (Finite 55)))
      = Some (1000000, NO_API_KEY_TEXT)
   \<and> filter isRemoteCall (trace (snd (answerWithSensorAI no_key always_ok (js ''q'')
          (Num (Finite 20000)) (Num (Finite 32)) (Num (Finite 55)) (init 1000000)))) = []"
  by (simp only: no_key_run) (simp add: cacheKey_def)

subsection \<open>Requests made by the orchestrator\<close>

lemma requests_emit [simp]:
  "requests (emit e w) = (if isRemoteCall e then Suc (requests w) else requests w)"
  by (simp add: requests_def)

lemma requests_update [simp]:
  "requests (w\<lparr>attempts := a\<rparr>) = requests w" "requests (w\<lparr>now := n\<rparr>) = requests w"
  "requests (w\<lparr>lastCall := c\<rparr>) = requests w" "requests (w\<lparr>chain := p\<rparr>) = requests w"
  "requests (w\<lparr>aiCache := m\<rparr>) = requests w"
  by (simp_all add: requests_def)

lemma requests_delay [simp]: "requests (delay env d w) = requests w"
  by (simp add: delay_def)

lemma requests_backoff [simp]: "requests (backoff env e a w) = requests w"
  by (simp add: backoff_def Let_def)







lemma requests_answered [simp]: "requests (answered v) = 1"
  by (simp add: requests_def answered_def)



lemma spaced_question_run:
  "answerWithSensorAI defaults always_ok (js ''q '') (Num (Finite 20000)) (Num (Finite 32)) (Num (Finite 55))
     (answered (js ''ok''))
   = (Inr (js ''ok''),
      \<lparr>now = 1030010, chain = Fulfilled, lastCall = 1030010,
       aiCache = [(js ''q'', Finite 20000, Finite 32, Finite 55) \<mapsto> (1000005, js ''ok''),
                  (js ''q '', Finite 20000, Finite 32, Finite 55) \<mapsto> (1030010, js ''ok'')],
       lastSensorData = None, users = [], pendingReplies = [], nextId = 1, attempts = 2,
       trace = [Started 1000000 (ask ''q''), ResponsesCreate (ask ''q''),
                Started 1030005 (ask ''q ''), ResponsesCreate (ask ''q '')]\<rparr>)"
  by (simp add: answerWithSensorAI_def askAndCache_def getCache_def setCache_def cacheKey_def
      always_ok_def safeAskOpenAI_def retryLoop_scripted minGapMs_def answered_def ask_def
      emit_def delay_def timeoutMs_def orNoText_def Let_def js_def)

lemma normalize_q: "normalize (js ''q '') = normalize (js ''q'')"
  by (simp add: normalize_def trim_def js_def isWhiteSpace_def)



text \<open>
  C6, amended. If a call of \<^verbatim>\<open>answerWithSensorAI\<close> returned a non-empty text \<open>v\<close>, then
  a call with the identical question string and readings whose \<^verbatim>\<open>Number\<close> coercions
  round to the same values, in any state where the cache entry of that key is still the
  one the first call left and is no older than \<open>CACHE_TTL_MS\<close>, returns \<open>v\<close> and changes
  nothing: no request, no effect. And a read of an entry older than \<open>CACHE_TTL_MS\<close>
  gives a miss and removes the entry.
\<close>

theorem cache_second_call:
  "(answerWithSensorAI cfg env q l t h w0 = (Inr v, w1) \<and> v \<noteq> []
      \<and> Math_round (Number (stringToNumber env) l') = Math_round (Number (stringToNumber env) l)
      \<and> Math_round (Number (stringToNumber env) t') = Math_round (Number (stringToNumber env) t)
      \<and> Math_round (Number (stringToNumber env) h') = Math_round (Number (stringToNumber env) h)
      \<and> aiCache w2 (cacheKey env q l t h) = aiCache w1 (cacheKey env q l t h)
      \<and> (\<forall>ins val. aiCache w1 (cacheKey env q l t h) = Some (ins, val)
            \<longrightarrow> of_int (int (now w2) - int ins) \<le> CACHE_TTL_MS cfg)
    \<longrightarrow> answerWithSensorAI cfg env q l' t' h' w2 = (Inr v, w2))
   \<and> (aiCache w k = Some (ins, val) \<and> CACHE_TTL_MS cfg < of_int (int (now w) - int ins)
    \<longrightarrow> getCache cfg k w = (None, w\<lparr>aiCache := (aiCache w)(k := None)\<rparr>))"
proof (intro conjI impI)
  assume a: "answerWithSensorAI cfg env q l t h w0 = (Inr v, w1) \<and> v \<noteq> []
      \<and> Math_round (Number (stringToNumber env) l') = Math_round (Number (stringToNumber env) l)
      \<and> Math_round (Number (stringToNumber env) t') = Math_round (Number (stringToNumber env) t)
      \<and> Math_round (Number (stringToNumber env) h') = Math_round (Number (stringToNumber env) h)
      \<and> aiCache w2 (cacheKey env q l t h) = aiCache w1 (cacheKey env q l t h)
      \<and> (\<forall>ins val. aiCache w1 (cacheKey env q l t h) = Some (ins, val)
            \<longrightarrow> of_int (int (now w2) - int ins) \<le> CACHE_TTL_MS cfg)"
  then have k: "cacheKey env q l' t' h' = cacheKey env q l t h" by (simp add: cacheKey_def)
  from a answer_leaves_entry [of cfg env q l t h w0 v w1]
  obtain ins where e: "aiCache w1 (cacheKey env q l t h) = Some (ins, v)" by blast
  with a have "aiCache w2 (cacheKey env q l t h) = Some (ins, v)"
    "of_int (int (now w2) - int ins) \<le> CACHE_TTL_MS cfg" by simp_all
  then have "getCache cfg (cacheKey env q l t h) w2 = (Some v, w2)" by (rule getCache_fresh)
  with a show "answerWithSensorAI cfg env q l' t' h' w2 = (Inr v, w2)"
    by (simp add: answerWithSensorAI_def k)
next
  assume "aiCache w k = Some (ins, val) \<and> CACHE_TTL_MS cfg < of_int (int (now w) - int ins)"
  then show "getCache cfg k w = (None, w\<lparr>aiCache := (aiCache w)(k := None)\<rparr>)"
    by (simp add: getCache_def)
qed


theorem cache_second_call_witness:
  "answerWithSensorAI defaults always_ok (js ''q'') (Num (Finite (100002 / 5))) (Num (Finite (63 / 2)))
      (Num (Finite 55)) ((answered (js ''ok''))\<lparr>now := 1100000\<rparr>)
     = (Inr (js ''ok''), (answered (js ''ok''))\<lparr>now := 1100000\<rparr>)
   \<and> getCache defaults (js ''q'', Finite 20000, Finite 32, Finite 55)
        ((answered (js ''ok''))\<lparr>now := 1200006\<rparr>)
     = (None, (answered (js ''ok''))\<lparr>now := 1200006, aiCache := Map.empty\<rparr>)"
proof -
  have r: "Math_round (Number (stringToNumber always_ok) (Num (Finite (100002 / 5))))
           = Math_round (Number (stringToNumber always_ok) (Num (Finite 20000)))"
    "Math_round (Number (stringToNumber always_ok) (Num (Finite (63 / 2))))
           = Math_round (Number (stringToNumber always_ok) (Num (Finite 32)))"
    by simp_all
  have k: "cacheKey always_ok (js ''q'') (Num (Finite 20000)) (Num (Finite 32)) (Num (Finite 55))
           = (js ''q'', Finite 20000, Finite 32, Finite 55)"
    by (simp add: cacheKey_def)
  have hyp: "answerWithSensorAI defaults always_ok (js ''q'') (Num (Finite 20000)) (Num (Finite 32))
         (Num (Finite 55)) (init 1000000) = (Inr (js ''ok''), answered (js ''ok''))
      \<and> js ''ok'' \<noteq> []
      \<and> Math_round (Number (stringToNumber always_ok) (Num (Finite (100002 / 5))))
           = Math_round (Number (stringToNumber always_ok) (Num (Finite 20000)))
      \<and> Math_round (Number (stringToNumber always_ok) (Num (Finite (63 / 2))))
           = Math_round (Number (stringToNumber always_ok) (Num (Finite 32)))
      \<and> Math_round (Number (stringToNumber always_ok) (Num (Finite 55)))
           = Math_round (Number (stringToNumber always_ok) (Num (Finite 55)))
      \<and> aiCache ((answered (js ''ok''))\<lparr>now := 1100000\<rparr>)
           (cacheKey always_ok (js ''q'') (Num (Finite 20000)) (Num (Finite 32)) (Num (Finite 55)))
         = aiCache (answered (js ''ok''))
           (cacheKey always_ok (js ''q'') (Num (Finite 20000)) (Num (Finite 32)) (Num (Finite 55)))
      \<and> (\<forall>ins val. aiCache (answered (js ''ok''))
             (cacheKey always_ok (js ''q'') (Num (Finite 20000)) (Num (Finite 32)) (Num (Finite 55)))
             = Some (ins, val)
            \<longrightarrow> of_int (int (now ((answered (js ''ok''))\<lparr>now := 1100000\<rparr>)) - int ins)
                \<le> CACHE_TTL_MS defaults)"
  proof (intro conjI allI impI)
    show "answerWithSensorAI defaults always_ok (js ''q'') (Num (Finite 20000)) (Num (Finite 32))
         (Num (Finite 55)) (init 1000000) = (Inr (js ''ok''), answered (js ''ok''))"
      by (rule ok_run)
    show "js ''ok'' \<noteq> []" by (simp add: js_def)
    show "Math_round (Number (stringToNumber always_ok) (Num (Finite (100002 / 5))))
           = Math_round (Number (stringToNumber always_ok) (Num (Finite 20000)))"
      by (rule r)
    show "Math_round (Number (stringToNumber always_ok) (Num (Finite (63 / 2))))
           = Math_round (Number (stringToNumber always_ok) (Num (Finite 32)))"
      by (rule r)
    show "Math_round (Number (stringToNumber always_ok) (Num (Finite 55)))
           = Math_round (Number (stringToNumber always_ok) (Num (Finite 55)))"
      by (rule refl)
    show "aiCache ((answered (js ''ok''))\<lparr>now := 1100000\<rparr>)
           (cacheKey always_ok (js ''q'') (Num (Finite 20000)) (Num (Finite 32)) (Num (Finite 55)))
         = aiCache (answered (js ''ok''))
           (cacheKey always_ok (js ''q'') (Num (Finite 20000)) (Num (Finite 32)) (Num (Finite 55)))"
      by simp
    fix ins val
    assume "aiCache (answered (js ''ok''))
             (cacheKey always_ok (js ''q'') (Num (Finite 20000)) (Num (Finite 32)) (Num (Finite 55)))
             = Some (ins, val)"
    then have "ins = 1000005" by (simp add: answered_def k)
    then show "of_int (int (now ((answered (js ''ok''))\<lparr>now := 1100000\<rparr>)) - int ins)
                \<le> CACHE_TTL_MS defaults"
      by simp
  qed
  have 1: "answerWithSensorAI defaults always_ok (js ''q'') (Num (Finite (100002 / 5))) (Num (Finite (63 / 2)))
      (Num (Finite 55)) ((answered (js ''ok''))\<lparr>now := 1100000\<rparr>)
     = (Inr (js ''ok''), (answered (js ''ok''))\<lparr>now := 1100000\<rparr>)"
    by (rule mp [OF conjunct1 [OF cache_second_call] hyp])
  have 2: "getCache defaults (js ''q'', Finite 20000, Finite 32, Finite 55)
        ((answered (js ''ok''))\<lparr>now := 1200006\<rparr>)
     = (None, (answered (js ''ok''))\<lparr>now := 1200006,
          aiCache := (aiCache ((answered (js ''ok''))\<lparr>now := 1200006\<rparr>))
             ((js ''q'', Finite 20000, Finite 32, Finite 55) := None)\<rparr>)"
    by (rule mp [OF conjunct2 [OF cache_second_call [where ins = 1000005 and val = "js ''ok''"]]])
       (simp add: answered_def)
  from 1 2 show ?thesis by (simp add: answered_def)
qed



text \<open>
  The claim C6 as stated fails in two ways. When the first answer is the empty string,
  the second call, at once and on the same input, makes a second request and returns its
  text. And the key is built from the question as passed, not from a normalized form: the
  questions \<^verbatim>\<open>q\<close> and \<^verbatim>\<open>q\<close> followed by a space have the same normal form (the one
  \<^verbatim>\<open>processMessageEvent\<close> computes), yet the call with the second one, right after an
  answered call with the first one, makes a second request.
\<close>

theorem second_call_counterexample:
  "fst (answerWithSensorAI defaults empty_first (js ''q'') (Num (Finite 20000)) (Num (Finite 32))
          (Num (Finite 55)) (init 1000000)) = Inr []
   \<and> fst (answerWithSensorAI defaults empty_first (js ''q'') (Num (Finite 20000)) (Num (Finite 32))
          (Num (Finite 55))
          (snd (answerWithSensorAI defaults empty_first (js ''q'') (Num (Finite 20000))
                  (Num (Finite 32)) (Num (Finite 55)) (init 1000000)))) = Inr (js ''ok'')
   \<and> requests (snd (answerWithSensorAI defaults empty_first (js ''q'') (Num (Finite 20000))
          (Num (Finite 32)) (Num (Finite 55))
          (snd (answerWithSensorAI defaults empty_first (js ''q'') (Num (Finite 20000))
                  (Num (Finite 32)) (Num (Finite 55)) (init 1000000))))) = 2
   \<and> normalize (js ''q '') = normalize (js ''q'')
   \<and> fst (answerWithSensorAI defaults always_ok (js ''q'') (Num (Finite 20000)) (Num (Finite 32))
          (Num (Finite 55)) (init 1000000)) = Inr (js ''ok'')
   \<and> requests (snd (answerWithSensorAI defaults always_ok (js ''q '') (Num (Finite 20000))
          (Num (Finite 32)) (Num (Finite 55))
          (snd (answerWithSensorAI defaults always_ok (js ''q'') (Num (Finite 20000))
                  (Num (Finite 32)) (Num (Finite 55)) (init 1000000))))) = 2"
proof -
  show ?thesis
    by (simp only: empty_first_run empty_first_again ok_run spaced_question_run fst_conv
          snd_conv normalize_q)
       (simp add: requests_def)
qed







section \<open>Properties of the event processor\<close>

subsection \<open>What the orchestrator leaves alone\<close>






lemma replyToUser_fields [simp]:
  "pendingReplies (replyToUser env tok m w) = pendingReplies w"
  "nextId (replyToUser env tok m w) = nextId w"
  "attempts (replyToUser env tok m w) = attempts w"
  "aiCache (replyToUser env tok m w) = aiCache w"
  "chain (replyToUser env tok m w) = chain w"
  "filter isDelete (trace (replyToUser env tok m w)) = filter isDelete (trace w)"
  "trace (replyToUser env tok m w)
     = trace w @ LineReply tok m # (if ioFails env (ReplyOp tok) then [ConsoleError (ReplyOp tok)] else [])"
  by (simp_all add: replyToUser_def Let_def)

lemma deletePendingReply_fields [simp]:
  "nextId (deletePendingReply env i w) = nextId w"
  "attempts (deletePendingReply env i w) = attempts w"
  "aiCache (deletePendingReply env i w) = aiCache w"
  "chain (deletePendingReply env i w) = chain w"
  "filter isDelete (trace (deletePendingReply env i w)) = filter isDelete (trace w) @ [PendingDelete i]"
  by (simp_all add: deletePendingReply_def Let_def)


lemma deletePendingReply_pending:
  "pendingReplies (deletePendingReply env i w)
     = (if ioFails env (PendingDeleteOp i) \<or> i \<notin> set (map pid (pendingReplies w))
        then pendingReplies w else filter (\<lambda>r. pid r \<noteq> i) (pendingReplies w))"
  by (simp add: deletePendingReply_def Let_def)

lemma deletePendingReply_subset:
  "set (pendingReplies (deletePendingReply env i w)) \<subseteq> set (pendingReplies w)"
  by (auto simp: deletePendingReply_pending)


subsection \<open>The steps of an event\<close>

lemma store_inv_cong:
  "pendingReplies w' = pendingReplies w \<Longrightarrow> nextId w' = nextId w \<Longrightarrow> store_inv w' = store_inv w"
  by (simp add: store_inv_def)



lemma upsertUser_cases:
  "upsertUser env uid w =
     (if ioFails env (UserFind uid) then Inl (IoError (UserFind uid))
      else if uid \<in> set (users w) then Inr w
      else if ioFails env (UserCreate uid) then Inl (IoError (UserCreate uid))
      else Inr (w\<lparr>users := users w @ [uid]\<rparr>))"
  by (simp add: upsertUser_def)















subsection \<open>Reference events\<close>

lemma normalize_laundry: "normalize laundry = laundry"
  by (simp add: normalize_def trim_def laundry_def isWhiteSpace_def)

lemma trim_laundry: "trim laundry = laundry"
  by (simp add: trim_def laundry_def isWhiteSpace_def)

lemma laundry_preset: "laundry \<in> set presetQuestions"
  by (simp add: presetQuestions_def laundry_def)

lemma laundry_nonempty: "laundry \<noteq> []"
  by (simp add: laundry_def)

lemma text_event_fields [simp]:
  "ev_replyToken (text_event x) = js ''t1''" "ev_userId (text_event x) = js ''u1''"
  "ev_messageType (text_event x) = Some (js ''text'')" "ev_text (text_event x) = Some x"
  by (simp_all add: text_event_def)

lemma js_text: "js ''text'' \<noteq> []" "js ''ok'' \<noteq> []" "trim (js ''ok'') = js ''ok''"
  by (simp_all add: js_def trim_def isWhiteSpace_def)

lemma admitted_laundry:
  assumes "\<not> ioFails env (UserFind (js ''u1''))" "\<not> ioFails env (UserCreate (js ''u1''))"
    "\<not> ioFails env (PendingFind (js ''t1''))" "\<not> ioFails env (PendingCreate (js ''t1''))"
  shows "processMessageEvent cfg env (text_event laundry) ((init 1000000)\<lparr>lastSensorData := d\<rparr>)
    = classify cfg env (text_event laundry) 1 laundry
        ((init 1000000)\<lparr>lastSensorData := d, users := [js ''u1''],
           pendingReplies := [\<lparr>pid = 1, replyToken = js ''t1'', userId = js ''u1'',
                               messageType = js ''text'', ptext = laundry, createdAt = 1000000\<rparr>],
           nextId := 2\<rparr>)"
  using assms
  by (simp add: processMessageEvent_def upsertUser_def createPending_def findPending_def Let_def
      init_def js_text trim_laundry laundry_nonempty numeral_2_eq_2)

lemma failing_event_run:
  "processMessageEvent defaults fails_first (text_event laundry) serving
   = (Inl server_error,
      \<lparr>now = 1000005, chain = Rejected server_error, lastCall = 0, aiCache = Map.empty,
       lastSensorData = Some reading, users = [js ''u1''],
       pendingReplies = [\<lparr>pid = 1, replyToken = js ''t1'', userId = js ''u1'',
                           messageType = js ''text'', ptext = laundry, createdAt = 1000000\<rparr>],
       nextId = 2, attempts = 1,
       trace = [LineReply (js ''t1'') AskingAI,
                Started 1000000 (Prompt (Num (Finite 20000)) (Num (Finite 32)) (Num (Finite 55)) laundry),
                ResponsesCreate (Prompt (Num (Finite 20000)) (Num (Finite 32)) (Num (Finite 55)) laundry)]\<rparr>)"
proof -
  have io: "\<not> ioFails fails_first x" for x by (simp add: fails_first_def)
  show ?thesis
    unfolding serving_def
    by (simp only: admitted_laundry [OF io io io io])
       (simp add: classify_def normalize_laundry laundry_preset askAndReply_def replyToUser_def
         reading_def answerWithSensorAI_def askAndCache_def getCache_def setCache_def cacheKey_def
         fails_first_def safeAskOpenAI_def retryLoop_scripted minGapMs_def init_def
         emit_def delay_def timeoutMs_def orNoText_def Let_def server_error_def)
qed

lemma answered_event_run:
  "processMessageEvent defaults always_ok (text_event laundry) serving
   = (Inr Replied,
      \<lparr>now = 1000005, chain = Fulfilled, lastCall = 1000005,
       aiCache = [(laundry, Finite 20000, Finite 32, Finite 55) \<mapsto> (1000005, js ''ok'')],
       lastSensorData = Some reading, users = [js ''u1''],
       pendingReplies = [],
       nextId = 2, attempts = 1,
       trace = [LineReply (js ''t1'') AskingAI,
                Started 1000000 (Prompt (Num (Finite 20000)) (Num (Finite 32)) (Num (Finite 55)) laundry),
                ResponsesCreate (Prompt (Num (Finite 20000)) (Num (Finite 32)) (Num (Finite 55)) laundry),
                LinePush (js ''u1'') (Answer laundry (js ''ok'')),
                PendingDelete 1]\<rparr>)"
proof -
  have io: "\<not> ioFails always_ok x" for x by (simp add: always_ok_def)
  show ?thesis
    unfolding serving_def
    by (simp only: admitted_laundry [OF io io io io])
       (simp add: classify_def normalize_laundry laundry_preset askAndReply_def replyToUser_def
         deletePendingReply_def js_text
         reading_def answerWithSensorAI_def askAndCache_def getCache_def setCache_def cacheKey_def
         always_ok_def safeAskOpenAI_def retryLoop_scripted minGapMs_def init_def
         emit_def delay_def timeoutMs_def orNoText_def Let_def)
qed






lemma well_formed_text_event: "well_formed (text_event x)"
  by (simp add: well_formed_def)




text \<open>
  C2. A fresh process that has a reading receives the text message \<open>laundry\<close>, one of
  the preset questions. The event is admitted and its pending record created. The
  completion request fails with status 500: \<^verbatim>\<open>processMessageEvent\<close> ends with that
  error, no delete of the pending record was requested, and the record is still in the
  store. When the request succeeds, the same event ends with the record deleted, by one
  delete.
\<close>

theorem pending_record_left_after_failure:
  "findPending (ev_replyToken (text_event laundry)) serving = None
   \<and> fst (processMessageEvent defaults fails_first (text_event laundry) serving) = Inl server_error
   \<and> pendingReplies (snd (processMessageEvent defaults fails_first (text_event laundry) serving))
     = [\<lparr>pid = 1, replyToken = js ''t1'', userId = js ''u1'',
          messageType = js ''text'', ptext = laundry, createdAt = 1000000\<rparr>]
   \<and> filter isDelete (trace (snd (processMessageEvent defaults fails_first (text_event laundry)
        serving))) = []
   \<and> fst (processMessageEvent defaults always_ok (text_event laundry) serving) = Inr Replied
   \<and> pendingReplies (snd (processMessageEvent defaults always_ok (text_event laundry) serving)) = []
   \<and> filter isDelete (trace (snd (processMessageEvent defaults always_ok (text_event laundry)
        serving))) = [PendingDelete 1]"
  by (simp only: failing_event_run answered_event_run fst_conv snd_conv)
     (simp add: findPending_def serving_def init_def)












section \<open>Properties of the sensor ingest\<close>

lemma plain_integer_abc: "plain_integer (js ''abc'') = NaN"
  by (simp add: plain_integer_def js_def)


text \<open>
  C10, amended. Both servers answer 400, and leave the reading as it was, exactly when
  one of the three fields is \<^verbatim>\<open>undefined\<close>. Otherwise they answer with success and
  replace the reading: \<^verbatim>\<open>src/backend/src/index.ts\<close> by the \<^verbatim>\<open>Number\<close> coercions of the three
  values, \<^verbatim>\<open>src/unnamed/part_001\<close> by the three values as they came. Nothing is checked:
  with a runtime that converts \<^verbatim>\<open>abc\<close> to \<open>NaN\<close>, the body with light \<^verbatim>\<open>abc\<close>,
  temperature \<open>-300\<close> and humidity \<open>150\<close> is stored by the first server as \<open>NaN\<close>,
  \<open>-300\<close> and \<open>150\<close>, with success.
\<close>

theorem sensor_ingest:
  "(fst (sensor_data_ts s2n body old) = 400
      \<longleftrightarrow> light body = Undefined \<or> temp body = Undefined \<or> humidity body = Undefined)
   \<and> (fst (sensor_data_js body old) = 400
      \<longleftrightarrow> light body = Undefined \<or> temp body = Undefined \<or> humidity body = Undefined)
   \<and> (light body = Undefined \<or> temp body = Undefined \<or> humidity body = Undefined
      \<longrightarrow> sensor_data_ts s2n body old = (400, old) \<and> sensor_data_js body old = (400, old))
   \<and> (light body \<noteq> Undefined \<and> temp body \<noteq> Undefined \<and> humidity body \<noteq> Undefined
      \<longrightarrow> sensor_data_ts s2n body old
            = (200, Some \<lparr>light = Num (Number s2n (light body)),
                           temp = Num (Number s2n (temp body)),
                           humidity = Num (Number s2n (humidity body))\<rparr>)
          \<and> sensor_data_js body old
            = (200, Some \<lparr>light = light body, temp = temp body, humidity = humidity body\<rparr>))
   \<and> (s2n (js ''abc'') = NaN
      \<longrightarrow> sensor_data_ts s2n \<lparr>light = Str (js ''abc''), temp = Num (Finite (- 300)),
                                humidity = Num (Finite 150)\<rparr> old
            = (200, Some \<lparr>light = Num NaN, temp = Num (Finite (- 300)),
                           humidity = Num (Finite 150)\<rparr>))"
  by (simp add: sensor_data_ts_def sensor_data_js_def)

theorem sensor_ingest_witness:
  "sensor_data_ts plain_integer \<lparr>light = Str (js ''abc''), temp = Num (Finite (- 300)),
                                  humidity = Num (Finite 150)\<rparr> (Some reading)
     = (200, Some \<lparr>light = Num NaN, temp = Num (Finite (- 300)), humidity = Num (Finite 150)\<rparr>)
   \<and> sensor_data_ts plain_integer \<lparr>light = Num (Finite 1), temp = Undefined,
                                     humidity = Num (Finite 150)\<rparr> (Some reading)
     = (400, Some reading)
   \<and> sensor_data_js \<lparr>light = Num (Finite 1), temp = Undefined, humidity = Num (Finite 150)\<rparr>
        (Some reading)
     = (400, Some reading)
   \<and> sensor_data_js \<lparr>light = Null, temp = Bool True, humidity = Num (Finite 150)\<rparr> (Some reading)
     = (200, Some \<lparr>light = Null, temp = Bool True, humidity = Num (Finite 150)\<rparr>)
   \<and> sensor_data_ts plain_integer \<lparr>light = Null, temp = Bool True, humidity = Num (Finite 150)\<rparr>
        (Some reading)
     = (200, Some \<lparr>light = Num (Finite 0), temp = Num (Finite 1), humidity = Num (Finite 150)\<rparr>)"
  using sensor_ingest [of plain_integer "\<lparr>light = Str (js ''abc''), temp = Num (Finite (- 300)),
                                  humidity = Num (Finite 150)\<rparr>" "Some reading"]
    sensor_ingest [of plain_integer "\<lparr>light = Num (Finite 1), temp = Undefined,
                                     humidity = Num (Finite 150)\<rparr>" "Some reading"]
    sensor_ingest [of plain_integer "\<lparr>light = Null, temp = Bool True, humidity = Num (Finite 150)\<rparr>"
       "Some reading"]
  by (simp add: plain_integer_abc)


text \<open>
  The claim C10 as stated fails for \<^verbatim>\<open>src/unnamed/part_001\<close>: it stores the string
  \<^verbatim>\<open>abc\<close> itself, not its \<^verbatim>\<open>Number\<close> coercion.
\<close>

theorem raw_reading_counterexample:
  "sensor_data_js \<lparr>light = Str (js ''abc''), temp = Num (Finite 30), humidity = Num (Finite 50)\<rparr> None
     = (200, Some \<lparr>light = Str (js ''abc''), temp = Num (Finite 30), humidity = Num (Finite 50)\<rparr>)
   \<and> Some \<lparr>light = Str (js ''abc''), temp = Num (Finite 30), humidity = Num (Finite 50)\<rparr>
     \<noteq> Some \<lparr>light = Num (Number plain_integer (Str (js ''abc''))),
              temp = Num (Number plain_integer (Num (Finite 30))),
              humidity = Num (Number plain_integer (Num (Finite 50)))\<rparr>"
  by (simp add: sensor_data_js_def)


end
